theory Spec2Isabelle
  imports Main
begin

section \<open>JavaScript values\<close>

text \<open>
  The tools exchange JSON values with their caller and with the backend client.
  An object is an association list (the first binding of a key is the one a property
  read sees); a property that is absent reads as \<open>undefined\<close>, which is \<open>None\<close> of
  \<open>json option\<close>. No tool computes with a number, and a number is represented by the
  text that the number-to-string conversion of JavaScript gives for it: \<open>10\<close>,
  \<open>-1.5\<close>, \<open>1e+21\<close>, \<open>NaN\<close>, \<open>Infinity\<close>. This is the text that a template
  literal prints and, for a finite number, the text that \<^verbatim>\<open>JSON.stringify\<close> prints.
\<close>

datatype json =
    JNull
  | JBool bool
  | JNum string
  | JStr string
  | JArr "json list"
  | JObj "(string \<times> json) list"

type_synonym obj = "(string \<times> json) list"

text \<open>The rest of an object destructuring \<^verbatim>\<open>const { id, ...rest } = args\<close>.\<close>

definition omit :: "string \<Rightarrow> obj \<Rightarrow> obj" where
  "omit key args = filter (\<lambda>(k, v). k \<noteq> key) args"

subsection \<open>Numbers and values as text\<close>

fun show_nat :: "nat \<Rightarrow> string" where
  "show_nat n =
     (if n < 10 then [''0123456789'' ! n]
      else show_nat (n div 10) @ [''0123456789'' ! (n mod 10)])"

declare show_nat.simps [simp del]

text \<open>The number that is the length of an array or of a string.\<close>

definition number_of_nat :: "nat \<Rightarrow> json" where
  "number_of_nat n = JNum (show_nat n)"

text \<open>
  \<open>js_String\<close> is the conversion a template literal \<^verbatim>\<open>`${x}`\<close> applies to a
  defined value; \<open>js_join\<close> is \<^verbatim>\<open>Array.prototype.join(",")\<close>, in which \<^verbatim>\<open>null\<close> is
  the empty string.
\<close>

fun js_String :: "json \<Rightarrow> string"
  and js_join :: "json list \<Rightarrow> string" where
  "js_String JNull = ''null''"
| "js_String (JBool b) = (if b then ''true'' else ''false'')"
| "js_String (JNum n) = n"
| "js_String (JStr s) = s"
| "js_String (JArr xs) = js_join xs"
| "js_String (JObj kvs) = ''[object Object]''"
| "js_join [] = []"
| "js_join [x] = (if x = JNull then [] else js_String x)"
| "js_join (x # y # ys) =
     (if x = JNull then [] else js_String x) @ '','' @ js_join (y # ys)"

definition template :: "json option \<Rightarrow> string" where
  "template x = (case x of None \<Rightarrow> ''undefined'' | Some v \<Rightarrow> js_String v)"

text \<open>
  An error that is thrown is represented by the text that stringifying it gives.
  Reading \<^verbatim>\<open>.length\<close> throws on \<^verbatim>\<open>undefined\<close> and \<^verbatim>\<open>null\<close>.
\<close>

type_synonym error = string

definition js_length :: "json option \<Rightarrow> error + json option" where
  "js_length x =
     (case x of
        None \<Rightarrow> Inl ''TypeError: Cannot read properties of undefined''
      | Some JNull \<Rightarrow> Inl ''TypeError: Cannot read properties of null''
      | Some (JArr xs) \<Rightarrow> Inr (Some (number_of_nat (length xs)))
      | Some (JStr s) \<Rightarrow> Inr (Some (number_of_nat (length s)))
      | Some (JObj kvs) \<Rightarrow> Inr (map_of kvs ''length'')
      | Some _ \<Rightarrow> Inr None)"

subsection \<open>\<^verbatim>\<open>JSON.stringify(value, null, 2)\<close>\<close>

text \<open>
  A finite number prints as its text; \<open>NaN\<close> and the two infinities print as
  \<^verbatim>\<open>null\<close>. A string prints in double quotes with the escapes of JSON; a non-empty
  array or object prints one element or member per line, indented by two spaces for
  each level.
\<close>

definition hex_digit :: "nat \<Rightarrow> char" where
  "hex_digit n = ''0123456789abcdef'' ! n"

definition escape_char :: "char \<Rightarrow> string" where
  "escape_char c =
     (if c = CHR 0x22 then [CHR 0x5C, CHR 0x22]
      else if c = CHR 0x5C then [CHR 0x5C, CHR 0x5C]
      else if c = CHR 0x08 then [CHR 0x5C, CHR ''b'']
      else if c = CHR 0x0C then [CHR 0x5C, CHR ''f'']
      else if c = CHR 0x0A then [CHR 0x5C, CHR ''n'']
      else if c = CHR 0x0D then [CHR 0x5C, CHR ''r'']
      else if c = CHR 0x09 then [CHR 0x5C, CHR ''t'']
      else if (of_char c :: nat) < 32
        then [CHR 0x5C, CHR ''u'', CHR ''0'', CHR ''0'',
              hex_digit (of_char c div 16), hex_digit (of_char c mod 16)]
      else [c])"

definition quote :: "string \<Rightarrow> string" where
  "quote s = CHR 0x22 # concat (map escape_char s) @ [CHR 0x22]"

fun indent :: "nat \<Rightarrow> string" where
  "indent 0 = []"
| "indent (Suc level) = ''  '' @ indent level"

definition newline :: "nat \<Rightarrow> string" where
  "newline level = CHR 0x0A # indent level"

fun join_with :: "string \<Rightarrow> string list \<Rightarrow> string" where
  "join_with sep [] = []"
| "join_with sep [x] = x"
| "join_with sep (x # y # ys) = x @ sep @ join_with sep (y # ys)"

fun stringify_at :: "nat \<Rightarrow> json \<Rightarrow> string"
  and stringify_elems :: "nat \<Rightarrow> json list \<Rightarrow> string list"
  and stringify_members :: "nat \<Rightarrow> obj \<Rightarrow> string list" where
  "stringify_at level JNull = ''null''"
| "stringify_at level (JBool b) = (if b then ''true'' else ''false'')"
| "stringify_at level (JNum n) =
     (if n = ''NaN'' \<or> n = ''Infinity'' \<or> n = ''-Infinity'' then ''null'' else n)"
| "stringify_at level (JStr s) = quote s"
| "stringify_at level (JArr []) = ''[]''"
| "stringify_at level (JArr (x # xs)) =
     ''['' @ newline (Suc level)
       @ join_with ('','' @ newline (Suc level)) (stringify_elems (Suc level) (x # xs))
       @ newline level @ '']''"
| "stringify_at level (JObj []) = ''{}''"
| "stringify_at level (JObj (kv # kvs)) =
     ''{'' @ newline (Suc level)
       @ join_with ('','' @ newline (Suc level)) (stringify_members (Suc level) (kv # kvs))
       @ newline level @ ''}''"
| "stringify_elems level [] = []"
| "stringify_elems level (x # xs) = stringify_at level x # stringify_elems level xs"
| "stringify_members level [] = []"
| "stringify_members level ((k, v) # kvs) =
     (quote k @ '': '' @ stringify_at level v) # stringify_members level kvs"

definition JSON_stringify :: "json \<Rightarrow> string" where
  "JSON_stringify v = stringify_at 0 v"

section \<open>The validation library\<close>

text \<open>
  Schemas are built with the zod library. A schema is the term that the builder calls
  construct: \<^verbatim>\<open>z.string()\<close> is \<open>ZString []\<close>, \<^verbatim>\<open>z.string().min(1)\<close> is
  \<open>ZString [Min 1]\<close>, \<^verbatim>\<open>s.optional()\<close> is \<open>ZOptional s\<close>, \<^verbatim>\<open>s.describe(d)\<close> is
  \<open>ZDescribe s d\<close>, \<^verbatim>\<open>z.array(s)\<close> is \<open>ZArray s\<close> and \<^verbatim>\<open>z.object({k: s, ...})\<close> is
  \<open>ZObject [(k, s), ...]\<close>. Parsing returns \<open>None\<close> where the library throws a
  \<^verbatim>\<open>ZodError\<close>. An object schema keeps the declared keys only (unknown keys are
  stripped) and leaves out a declared key whose value is absent.
\<close>

datatype check = Min nat | Max nat | Uuid

datatype schema =
    ZString "check list"
  | ZNumber
  | ZBoolean
  | ZAny
  | ZArray schema
  | ZRecord schema
  | ZObject "(string \<times> schema) list"
  | ZOptional schema
  | ZDescribe schema string

fun accepts_undefined :: "schema \<Rightarrow> bool" where
  "accepts_undefined (ZOptional s) = True"
| "accepts_undefined ZAny = True"
| "accepts_undefined (ZDescribe s d) = accepts_undefined s"
| "accepts_undefined s = False"

definition is_hex :: "char \<Rightarrow> bool" where
  "is_hex c = (c \<in> set ''0123456789abcdefABCDEF'')"

text \<open>The \<^verbatim>\<open>uuid()\<close> check: five groups of 8, 4, 4, 4 and 12 hexadecimal digits.\<close>

definition uuid_class :: "char \<Rightarrow> nat" where
  "uuid_class c = (if c = CHR ''-'' then 0 else if is_hex c then 1 else 2)"

definition uuid_pattern :: "nat list" where
  "uuid_pattern =
     [1, 1, 1, 1, 1, 1, 1, 1, 0, 1, 1, 1, 1, 0, 1, 1, 1, 1, 0, 1, 1, 1, 1, 0,
      1, 1, 1, 1, 1, 1, 1, 1, 1, 1, 1, 1]"

fun run_check :: "check \<Rightarrow> string \<Rightarrow> bool" where
  "run_check (Min n) s = (n \<le> length s)"
| "run_check (Max n) s = (length s \<le> n)"
| "run_check Uuid s = (map uuid_class s = uuid_pattern)"

fun parse_val :: "schema \<Rightarrow> json \<Rightarrow> json option"
  and parse_list :: "schema \<Rightarrow> json list \<Rightarrow> json list option"
  and parse_entries :: "schema \<Rightarrow> obj \<Rightarrow> obj option"
  and parse_fields :: "(string \<times> schema) list \<Rightarrow> obj \<Rightarrow> obj option" where
  "parse_val (ZString cs) x =
     (case x of
        JStr s \<Rightarrow> if list_all (\<lambda>c. run_check c s) cs then Some (JStr s) else None
      | _ \<Rightarrow> None)"
| "parse_val ZNumber x =
     (case x of JNum n \<Rightarrow> if n = ''NaN'' then None else Some (JNum n) | _ \<Rightarrow> None)"
| "parse_val ZBoolean x = (case x of JBool b \<Rightarrow> Some (JBool b) | _ \<Rightarrow> None)"
| "parse_val ZAny x = Some x"
| "parse_val (ZArray s) x =
     (case x of JArr xs \<Rightarrow> map_option JArr (parse_list s xs) | _ \<Rightarrow> None)"
| "parse_val (ZRecord s) x =
     (case x of JObj kvs \<Rightarrow> map_option JObj (parse_entries s kvs) | _ \<Rightarrow> None)"
| "parse_val (ZObject shape) x =
     (case x of JObj kvs \<Rightarrow> map_option JObj (parse_fields shape kvs) | _ \<Rightarrow> None)"
| "parse_val (ZOptional s) x = parse_val s x"
| "parse_val (ZDescribe s d) x = parse_val s x"
| "parse_list s [] = Some []"
| "parse_list s (x # xs) =
     (case parse_val s x of
        None \<Rightarrow> None
      | Some y \<Rightarrow> map_option ((#) y) (parse_list s xs))"
| "parse_entries s [] = Some []"
| "parse_entries s ((k, x) # kvs) =
     (case parse_val s x of
        None \<Rightarrow> None
      | Some y \<Rightarrow> map_option ((#) (k, y)) (parse_entries s kvs))"
| "parse_fields [] kvs = Some []"
| "parse_fields ((k, s) # shape) kvs =
     (case map_of kvs k of
        None \<Rightarrow> if accepts_undefined s then parse_fields shape kvs else None
      | Some x \<Rightarrow>
          (case parse_val s x of
             None \<Rightarrow> None
           | Some y \<Rightarrow> map_option ((#) (k, y)) (parse_fields shape kvs)))"

text \<open>
  \<^verbatim>\<open>schema.parse(args)\<close> for the input schema of a tool. Every input schema of
  this repository is a \<^verbatim>\<open>z.object\<close>, so what it returns is an object.
\<close>

definition parse_args :: "schema \<Rightarrow> json \<Rightarrow> obj option" where
  "parse_args s args =
     (case parse_val s args of Some (JObj validated) \<Rightarrow> Some validated | _ \<Rightarrow> None)"

section \<open>Shared validators\<close>

text \<open>
  The file \<^verbatim>\<open>validators.ts\<close>, which is not among the sources, exports the shared
  primitive schemas that the tool schemas import. They are parameters of the tool
  sets: every statement below that mentions \<open>v\<close> holds for whatever schemas, built
  from the constructors above, \<^verbatim>\<open>validators.ts\<close> exports.
\<close>

record validators =
  UuidSchema :: schema
  FieldsSchema :: schema
  FilterSchema :: schema
  SearchSchema :: schema
  SortSchema :: schema
  LimitSchema :: schema
  OffsetSchema :: schema
  MetaSchema :: schema

text \<open>
  Modelled from the spec: the contents of \<^verbatim>\<open>validators.ts\<close>, which is not among the
  sources. One instance of the shared primitive schemas of the system overview (UUID,
  fields list, filter object, search string, sort list, pagination limit and offset,
  meta flag), on which the tools are run at concrete inputs.
\<close>

definition sampleValidators :: validators where
  "sampleValidators =
     \<lparr>UuidSchema = ZString [Uuid],
      FieldsSchema = ZOptional (ZArray (ZString [])),
      FilterSchema = ZOptional (ZRecord ZAny),
      SearchSchema = ZOptional (ZString []),
      SortSchema = ZOptional (ZArray (ZString [])),
      LimitSchema = ZOptional ZNumber,
      OffsetSchema = ZOptional ZNumber,
      MetaSchema = ZOptional (ZString [])\<rparr>"

section \<open>Dashboard schemas\<close>

definition ListDashboardsSchema :: "validators \<Rightarrow> schema" where
  "ListDashboardsSchema v = ZObject
     [(''fields'', FieldsSchema v),
      (''filter'', FilterSchema v),
      (''search'', SearchSchema v),
      (''sort'', SortSchema v),
      (''limit'', LimitSchema v),
      (''offset'', OffsetSchema v),
      (''meta'', MetaSchema v)]"

definition GetDashboardSchema :: "validators \<Rightarrow> schema" where
  "GetDashboardSchema v = ZObject
     [(''id'', ZDescribe (UuidSchema v) ''Dashboard ID (UUID)''),
      (''fields'', FieldsSchema v),
      (''meta'', MetaSchema v)]"

definition CreateDashboardSchema :: "validators \<Rightarrow> schema" where
  "CreateDashboardSchema v = ZObject
     [(''name'', ZDescribe (ZString [Min 1]) ''Name of the dashboard''),
      (''icon'', ZDescribe (ZOptional (ZString [])) ''Material icon for dashboard''),
      (''note'', ZDescribe (ZOptional (ZString [])) ''Descriptive text about the dashboard''),
      (''color'', ZDescribe (ZOptional (ZString [])) ''Accent color for the dashboard''),
      (''user_created'',
         ZDescribe (ZOptional (UuidSchema v)) ''User that created the dashboard (UUID)''),
      (''date_created'',
         ZDescribe (ZOptional (ZString [])) ''When the dashboard was created (ISO 8601)'')]"

definition CreateDashboardsSchema :: "validators \<Rightarrow> schema" where
  "CreateDashboardsSchema v = ZObject
     [(''dashboards'',
         ZDescribe (ZArray (CreateDashboardSchema v)) ''Array of dashboards to create'')]"

definition UpdateDashboardSchema :: "validators \<Rightarrow> schema" where
  "UpdateDashboardSchema v = ZObject
     [(''id'', ZDescribe (UuidSchema v) ''Dashboard ID (UUID) to update''),
      (''name'', ZDescribe (ZOptional (ZString [])) ''Name of the dashboard''),
      (''icon'', ZDescribe (ZOptional (ZString [])) ''Material icon for dashboard''),
      (''note'', ZDescribe (ZOptional (ZString [])) ''Descriptive text about the dashboard''),
      (''color'', ZDescribe (ZOptional (ZString [])) ''Accent color for the dashboard'')]"

definition UpdateDashboardsSchema :: "validators \<Rightarrow> schema" where
  "UpdateDashboardsSchema v = ZObject
     [(''dashboards'',
         ZDescribe (ZArray (UpdateDashboardSchema v))
           ''Array of dashboards to update (each must include id)'')]"

definition DeleteDashboardSchema :: "validators \<Rightarrow> schema" where
  "DeleteDashboardSchema v = ZObject
     [(''id'', ZDescribe (UuidSchema v) ''Dashboard ID (UUID) to delete'')]"

definition DeleteDashboardsSchema :: schema where
  "DeleteDashboardsSchema = ZObject
     [(''ids'', ZDescribe (ZArray (ZString [])) ''Array of dashboard IDs (UUIDs) to delete'')]"

section \<open>The backend client\<close>

text \<open>
  The backend client is an external collaborator with one method per CRUD operation;
  its file \<^verbatim>\<open>directus-client.ts\<close> is not among the sources, and the client is a
  parameter of every statement. A method call is recorded as the name of the method
  and its arguments. The client answers a call, knowing the calls made before it, with
  the response the promise resolves to (\<open>Inr\<close>) or the error it rejects with
  (\<open>Inl\<close>). A computation that uses the client takes the log of the calls made so
  far and returns it extended. The methods below are those that the handlers call and
  the tests mock.
\<close>

datatype call = Call (method_name: string) (arguments: "json option list")

type_synonym response = "error + json"

type_synonym client = "call list \<Rightarrow> call \<Rightarrow> response"

type_synonym 'a io = "call list \<Rightarrow> 'a \<times> call list"

definition invoke :: "client \<Rightarrow> call \<Rightarrow> response io" where
  "invoke client c log = (client log c, log @ [c])"

definition listDashboards :: "client \<Rightarrow> json \<Rightarrow> response io" where
  "listDashboards client params = invoke client (Call ''listDashboards'' [Some params])"

definition getDashboard :: "client \<Rightarrow> json option \<Rightarrow> json \<Rightarrow> response io" where
  "getDashboard client ident params =
     invoke client (Call ''getDashboard'' [ident, Some params])"

definition createDashboard :: "client \<Rightarrow> json \<Rightarrow> response io" where
  "createDashboard client data = invoke client (Call ''createDashboard'' [Some data])"

definition createDashboards :: "client \<Rightarrow> json option \<Rightarrow> response io" where
  "createDashboards client dashboards = invoke client (Call ''createDashboards'' [dashboards])"

definition updateDashboard :: "client \<Rightarrow> json option \<Rightarrow> json \<Rightarrow> response io" where
  "updateDashboard client ident data =
     invoke client (Call ''updateDashboard'' [ident, Some data])"

definition updateDashboards :: "client \<Rightarrow> json option \<Rightarrow> response io" where
  "updateDashboards client dashboards = invoke client (Call ''updateDashboards'' [dashboards])"

definition deleteDashboard :: "client \<Rightarrow> json option \<Rightarrow> response io" where
  "deleteDashboard client ident = invoke client (Call ''deleteDashboard'' [ident])"

definition deleteDashboards :: "client \<Rightarrow> json option \<Rightarrow> response io" where
  "deleteDashboards client ids = invoke client (Call ''deleteDashboards'' [ids])"

definition listPanels :: "client \<Rightarrow> json \<Rightarrow> response io" where
  "listPanels client params = invoke client (Call ''listPanels'' [Some params])"

definition getPanel :: "client \<Rightarrow> json option \<Rightarrow> json \<Rightarrow> response io" where
  "getPanel client ident params = invoke client (Call ''getPanel'' [ident, Some params])"

definition createPanel :: "client \<Rightarrow> json \<Rightarrow> response io" where
  "createPanel client data = invoke client (Call ''createPanel'' [Some data])"

definition createPanels :: "client \<Rightarrow> json option \<Rightarrow> response io" where
  "createPanels client panels = invoke client (Call ''createPanels'' [panels])"

definition updatePanel :: "client \<Rightarrow> json option \<Rightarrow> json \<Rightarrow> response io" where
  "updatePanel client ident data = invoke client (Call ''updatePanel'' [ident, Some data])"

definition updatePanels :: "client \<Rightarrow> json option \<Rightarrow> response io" where
  "updatePanels client panels = invoke client (Call ''updatePanels'' [panels])"

definition deletePanel :: "client \<Rightarrow> json option \<Rightarrow> response io" where
  "deletePanel client ident = invoke client (Call ''deletePanel'' [ident])"

definition deletePanels :: "client \<Rightarrow> json option \<Rightarrow> response io" where
  "deletePanels client ids = invoke client (Call ''deletePanels'' [ids])"

section \<open>The tool factory\<close>

text \<open>
  The argument of \<^verbatim>\<open>createTool\<close> is a \<open>tool_config\<close>; \<^verbatim>\<open>createActionTool\<close> takes
  a \<open>successMessage\<close> formatter in addition.
\<close>

record tool_config =
  name :: string
  description :: string
  inputSchema :: schema
  toolsets :: "string list"
  handler :: "client \<Rightarrow> obj \<Rightarrow> response io"

record action_config = tool_config +
  successMessage :: "obj \<Rightarrow> error + string"

text \<open>
  Modelled from the spec: the uniform result and error envelope that a tool returns,
  whose declaration is not among the sources: the result envelope with its text
  (\<^verbatim>\<open>result.content[0].text\<close> in the tests), the error envelope with the
  stringified error, or the rejection of an input that fails validation (the
  specification does not say in which form a rejection is reported).
\<close>

datatype envelope = Content string | ErrorContent string | Rejected

text \<open>
  Modelled from the spec: the uniform tool descriptor, whose declaration is not among
  the sources: name, description, input schema, toolset tags, handler and the optional
  success-message formatter.
\<close>

record MCPTool =
  tool_name :: string
  tool_description :: string
  tool_inputSchema :: schema
  tool_toolsets :: "string list"
  tool_handler :: "client \<Rightarrow> json \<Rightarrow> envelope io"
  tool_successMessage :: "(obj \<Rightarrow> error + string) option"

text \<open>
  Modelled from the spec: \<^verbatim>\<open>createTool\<close> of \<^verbatim>\<open>tool-helpers.ts\<close>, which is not
  among the sources. It builds the uniform tool descriptor and wraps the handler with
  validation and envelope formatting: validate, then forward; catch and stringify; on
  success serialize the response to text.
\<close>

definition createTool :: "tool_config \<Rightarrow> MCPTool" where
  "createTool config =
     \<lparr>tool_name = name config,
      tool_description = description config,
      tool_inputSchema = inputSchema config,
      tool_toolsets = toolsets config,
      tool_handler = (\<lambda>client args log.
        case parse_args (inputSchema config) args of
          None \<Rightarrow> (Rejected, log)
        | Some validated \<Rightarrow>
            (case handler config client validated log of
               (Inl err, log') \<Rightarrow> (ErrorContent err, log')
             | (Inr result, log') \<Rightarrow> (Content (JSON_stringify result), log'))),
      tool_successMessage = None\<rparr>"

text \<open>
  Modelled from the spec: \<^verbatim>\<open>createActionTool\<close> of \<^verbatim>\<open>tool-helpers.ts\<close>, which is
  not among the sources. As \<open>createTool\<close>, with the optional success-message
  formatter: on success the text is the formatter's message for the validated
  arguments, as the tests of the delete tools expect.
\<close>

definition createActionTool :: "action_config \<Rightarrow> MCPTool" where
  "createActionTool config =
     \<lparr>tool_name = name config,
      tool_description = description config,
      tool_inputSchema = inputSchema config,
      tool_toolsets = toolsets config,
      tool_handler = (\<lambda>client args log.
        case parse_args (inputSchema config) args of
          None \<Rightarrow> (Rejected, log)
        | Some validated \<Rightarrow>
            (case handler config client validated log of
               (Inl err, log') \<Rightarrow> (ErrorContent err, log')
             | (Inr result, log') \<Rightarrow>
                 (case successMessage config validated of
                    Inl err \<Rightarrow> (ErrorContent err, log')
                  | Inr message \<Rightarrow> (Content message, log')))),
      tool_successMessage = Some (successMessage config)\<rparr>"

text \<open>
  An element of a tool array is written as a call of \<^verbatim>\<open>createTool\<close> or of
  \<^verbatim>\<open>createActionTool\<close> on a configuration. \<open>tool_source\<close> records which of the two
  and the configuration; \<open>build_tool\<close> makes the call.
\<close>

datatype tool_source = ToolConfig tool_config | ActionToolConfig action_config

fun source_name :: "tool_source \<Rightarrow> string" where
  "source_name (ToolConfig config) = name config"
| "source_name (ActionToolConfig config) = name config"

fun source_description :: "tool_source \<Rightarrow> string" where
  "source_description (ToolConfig config) = description config"
| "source_description (ActionToolConfig config) = description config"

fun source_inputSchema :: "tool_source \<Rightarrow> schema" where
  "source_inputSchema (ToolConfig config) = inputSchema config"
| "source_inputSchema (ActionToolConfig config) = inputSchema config"

fun source_toolsets :: "tool_source \<Rightarrow> string list" where
  "source_toolsets (ToolConfig config) = toolsets config"
| "source_toolsets (ActionToolConfig config) = toolsets config"

fun source_handler :: "tool_source \<Rightarrow> client \<Rightarrow> obj \<Rightarrow> response io" where
  "source_handler (ToolConfig config) = handler config"
| "source_handler (ActionToolConfig config) = handler config"

fun source_successMessage :: "tool_source \<Rightarrow> (obj \<Rightarrow> error + string) option" where
  "source_successMessage (ToolConfig config) = None"
| "source_successMessage (ActionToolConfig config) = Some (successMessage config)"

fun build_tool :: "tool_source \<Rightarrow> MCPTool" where
  "build_tool (ToolConfig config) = createTool config"
| "build_tool (ActionToolConfig config) = createActionTool config"

section \<open>Dashboard tools\<close>

subsection \<open>Handlers and success messages\<close>

text \<open>
  The \<^verbatim>\<open>handler\<close> and \<^verbatim>\<open>successMessage\<close> functions written in the tool array,
  each named after its tool.
\<close>

definition list_dashboards_handler :: "client \<Rightarrow> obj \<Rightarrow> response io" where
  "list_dashboards_handler client args = listDashboards client (JObj args)"

definition get_dashboard_handler :: "client \<Rightarrow> obj \<Rightarrow> response io" where
  "get_dashboard_handler client args =
     (let ident = map_of args ''id''; params = omit ''id'' args
      in getDashboard client ident (JObj params))"

definition create_dashboard_handler :: "client \<Rightarrow> obj \<Rightarrow> response io" where
  "create_dashboard_handler client args = createDashboard client (JObj args)"

definition create_dashboards_handler :: "client \<Rightarrow> obj \<Rightarrow> response io" where
  "create_dashboards_handler client args = createDashboards client (map_of args ''dashboards'')"

definition update_dashboard_handler :: "client \<Rightarrow> obj \<Rightarrow> response io" where
  "update_dashboard_handler client args =
     (let ident = map_of args ''id''; data = omit ''id'' args
      in updateDashboard client ident (JObj data))"

definition update_dashboards_handler :: "client \<Rightarrow> obj \<Rightarrow> response io" where
  "update_dashboards_handler client args = updateDashboards client (map_of args ''dashboards'')"

definition delete_dashboard_handler :: "client \<Rightarrow> obj \<Rightarrow> response io" where
  "delete_dashboard_handler client args = deleteDashboard client (map_of args ''id'')"

definition delete_dashboard_successMessage :: "obj \<Rightarrow> error + string" where
  "delete_dashboard_successMessage args =
     Inr (''Dashboard '' @ template (map_of args ''id'') @ '' deleted successfully'')"

definition delete_dashboards_handler :: "client \<Rightarrow> obj \<Rightarrow> response io" where
  "delete_dashboards_handler client args = deleteDashboards client (map_of args ''ids'')"

definition delete_dashboards_successMessage :: "obj \<Rightarrow> error + string" where
  "delete_dashboards_successMessage args =
     (case js_length (map_of args ''ids'') of
        Inl err \<Rightarrow> Inl err
      | Inr n \<Rightarrow> Inr (template n @ '' dashboards deleted successfully''))"

subsection \<open>The configurations and the tool array\<close>

definition list_dashboards_config :: "validators \<Rightarrow> tool_config" where
  \<open>list_dashboards_config v =
     \<lparr>name = ''list_dashboards'',
      description = ''List all dashboards that exist in Directus. Supports filtering, sorting, pagination, and search. Example: {filter: {"name": {"_contains": "sales"}}, sort: ["-date_created"], limit: 10}'',
      inputSchema = ListDashboardsSchema v,
      toolsets = [''dashboards''],
      handler = list_dashboards_handler\<rparr>\<close>

definition get_dashboard_config :: "validators \<Rightarrow> tool_config" where
  \<open>get_dashboard_config v =
     \<lparr>name = ''get_dashboard'',
      description = ''Get a single dashboard by ID from Directus. Optionally specify fields to return and metadata options.'',
      inputSchema = GetDashboardSchema v,
      toolsets = [''dashboards''],
      handler = get_dashboard_handler\<rparr>\<close>

definition create_dashboard_config :: "validators \<Rightarrow> tool_config" where
  \<open>create_dashboard_config v =
     \<lparr>name = ''create_dashboard'',
      description = ''Create a new dashboard in Directus. Provide the dashboard data including name and optional configuration. Example: {name: "Sales Dashboard", icon: "analytics", color: "#FF5722", note: "Main sales metrics"}'',
      inputSchema = CreateDashboardSchema v,
      toolsets = [''dashboards''],
      handler = create_dashboard_handler\<rparr>\<close>

definition create_dashboards_config :: "validators \<Rightarrow> tool_config" where
  \<open>create_dashboards_config v =
     \<lparr>name = ''create_dashboards'',
      description = ''Create multiple dashboards in Directus at once. More efficient than creating dashboards one by one. Example: {dashboards: [{name: "Dashboard 1", icon: "dashboard"}, {name: "Dashboard 2", icon: "analytics"}]}'',
      inputSchema = CreateDashboardsSchema v,
      toolsets = [''dashboards''],
      handler = create_dashboards_handler\<rparr>\<close>

definition update_dashboard_config :: "validators \<Rightarrow> tool_config" where
  \<open>update_dashboard_config v =
     \<lparr>name = ''update_dashboard'',
      description = ''Update an existing dashboard in Directus. Provide the dashboard ID and fields to update. Example: {id: "dashboard-uuid", name: "Updated Dashboard Name", color: "#4CAF50"}'',
      inputSchema = UpdateDashboardSchema v,
      toolsets = [''dashboards''],
      handler = update_dashboard_handler\<rparr>\<close>

definition update_dashboards_config :: "validators \<Rightarrow> tool_config" where
  \<open>update_dashboards_config v =
     \<lparr>name = ''update_dashboards'',
      description = ''Update multiple dashboards in Directus at once. Each dashboard must include an id field. Example: {dashboards: [{id: "uuid-1", name: "Updated Name 1"}, {id: "uuid-2", color: "#FF9800"}]}'',
      inputSchema = UpdateDashboardsSchema v,
      toolsets = [''dashboards''],
      handler = update_dashboards_handler\<rparr>\<close>

definition delete_dashboard_config :: "validators \<Rightarrow> action_config" where
  \<open>delete_dashboard_config v =
     \<lparr>name = ''delete_dashboard'',
      description = ''Delete a dashboard from Directus by ID. This action cannot be undone.'',
      inputSchema = DeleteDashboardSchema v,
      toolsets = [''dashboards''],
      handler = delete_dashboard_handler,
      successMessage = delete_dashboard_successMessage\<rparr>\<close>

definition delete_dashboards_config :: action_config where
  \<open>delete_dashboards_config =
     \<lparr>name = ''delete_dashboards'',
      description = ''Delete multiple dashboards from Directus at once by their IDs. This action cannot be undone. Example: {ids: ["uuid-1", "uuid-2", "uuid-3"]}'',
      inputSchema = DeleteDashboardsSchema,
      toolsets = [''dashboards''],
      handler = delete_dashboards_handler,
      successMessage = delete_dashboards_successMessage\<rparr>\<close>

definition dashboardToolConfigs :: "validators \<Rightarrow> tool_source list" where
  "dashboardToolConfigs v =
     [ToolConfig (list_dashboards_config v),
      ToolConfig (get_dashboard_config v),
      ToolConfig (create_dashboard_config v),
      ToolConfig (create_dashboards_config v),
      ToolConfig (update_dashboard_config v),
      ToolConfig (update_dashboards_config v),
      ActionToolConfig (delete_dashboard_config v),
      ActionToolConfig delete_dashboards_config]"

definition dashboardTools :: "validators \<Rightarrow> MCPTool list" where
  "dashboardTools v = map build_tool (dashboardToolConfigs v)"

section \<open>Panel tools\<close>

text \<open>
  The file \<^verbatim>\<open>panel-tools.ts\<close> is not among the sources; its tests are. What the tests
  do not determine is a parameter: the fields of a panel to create, the fields of a
  panel update other than its id, and the description of each tool.
\<close>

record panel_source =
  CreatePanelFields :: "(string \<times> schema) list"
  UpdatePanelFields :: "(string \<times> schema) list"
  panelDescription :: "string \<Rightarrow> string"

text \<open>
  Modelled from the spec: one instance of the panel fields, after the fields that
  \<^verbatim>\<open>panel-tools.test.ts\<close> requires of a panel to create and those it passes optionally.
\<close>

definition samplePanelSource :: panel_source where
  "samplePanelSource =
     \<lparr>CreatePanelFields =
        [(''dashboard'', UuidSchema sampleValidators),
         (''name'', ZString []),
         (''icon'', ZOptional (ZString [])),
         (''color'', ZOptional (ZString [])),
         (''show_header'', ZOptional ZBoolean),
         (''note'', ZOptional (ZString [])),
         (''type'', ZString []),
         (''position_x'', ZNumber),
         (''position_y'', ZNumber),
         (''width'', ZNumber),
         (''height'', ZNumber),
         (''options'', ZOptional (ZRecord ZAny)),
         (''user_created'', ZOptional (UuidSchema sampleValidators)),
         (''date_created'', ZOptional (ZString []))],
      UpdatePanelFields =
        [(''name'', ZOptional (ZString [])),
         (''position_x'', ZOptional ZNumber),
         (''position_y'', ZOptional ZNumber),
         (''width'', ZOptional ZNumber),
         (''height'', ZOptional ZNumber)],
      panelDescription = (\<lambda>tool. ''Panel tool '' @ tool)\<rparr>"

text \<open>
  The panel tool set is the analogue of the dashboard one: one tool per CRUD
  operation, each with a schema composed from the shared validators and a call of one
  client method. The tool names, the client methods, the arguments of each call and
  the two success messages are those that \<^verbatim>\<open>panel-tools.test.ts\<close> expects.
\<close>

text \<open>
  Modelled from the spec: the schema \<open>ListPanelsSchema\<close> of \<^verbatim>\<open>panel-tools.ts\<close>, the
  analogue of \<open>ListDashboardsSchema\<close>.
\<close>

definition ListPanelsSchema :: "validators \<Rightarrow> schema" where
  "ListPanelsSchema v = ZObject
     [(''fields'', FieldsSchema v),
      (''filter'', FilterSchema v),
      (''search'', SearchSchema v),
      (''sort'', SortSchema v),
      (''limit'', LimitSchema v),
      (''offset'', OffsetSchema v),
      (''meta'', MetaSchema v)]"

text \<open>
  Modelled from the spec: the schema \<open>GetPanelSchema\<close> of \<^verbatim>\<open>panel-tools.ts\<close>, the
  analogue of \<open>GetDashboardSchema\<close>.
\<close>

definition GetPanelSchema :: "validators \<Rightarrow> schema" where
  "GetPanelSchema v = ZObject
     [(''id'', UuidSchema v), (''fields'', FieldsSchema v), (''meta'', MetaSchema v)]"

text \<open>
  Modelled from the spec: the schema \<open>CreatePanelSchema\<close> of \<^verbatim>\<open>panel-tools.ts\<close>, an
  object schema whose fields are a parameter.
\<close>

definition CreatePanelSchema :: "panel_source \<Rightarrow> schema" where
  "CreatePanelSchema p = ZObject (CreatePanelFields p)"

text \<open>
  Modelled from the spec: the schema \<open>CreatePanelsSchema\<close> of \<^verbatim>\<open>panel-tools.ts\<close>, the
  analogue of \<open>CreateDashboardsSchema\<close>.
\<close>

definition CreatePanelsSchema :: "panel_source \<Rightarrow> schema" where
  "CreatePanelsSchema p = ZObject [(''panels'', ZArray (CreatePanelSchema p))]"

text \<open>
  Modelled from the spec: the schema \<open>UpdatePanelSchema\<close> of \<^verbatim>\<open>panel-tools.ts\<close>: the
  id, validated by the shared UUID schema as in \<open>UpdateDashboardSchema\<close>, and the fields
  that are a parameter.
\<close>

definition UpdatePanelSchema :: "validators \<Rightarrow> panel_source \<Rightarrow> schema" where
  "UpdatePanelSchema v p = ZObject ((''id'', UuidSchema v) # UpdatePanelFields p)"

text \<open>
  Modelled from the spec: the schema \<open>UpdatePanelsSchema\<close> of \<^verbatim>\<open>panel-tools.ts\<close>, the
  analogue of \<open>UpdateDashboardsSchema\<close>.
\<close>

definition UpdatePanelsSchema :: "validators \<Rightarrow> panel_source \<Rightarrow> schema" where
  "UpdatePanelsSchema v p = ZObject [(''panels'', ZArray (UpdatePanelSchema v p))]"

text \<open>
  Modelled from the spec: the schema \<open>DeletePanelSchema\<close> of \<^verbatim>\<open>panel-tools.ts\<close>, the
  analogue of \<open>DeleteDashboardSchema\<close>.
\<close>

definition DeletePanelSchema :: "validators \<Rightarrow> schema" where
  "DeletePanelSchema v = ZObject [(''id'', UuidSchema v)]"

text \<open>
  Modelled from the spec: the schema \<open>DeletePanelsSchema\<close> of \<^verbatim>\<open>panel-tools.ts\<close>, the
  analogue of \<open>DeleteDashboardsSchema\<close>.
\<close>

definition DeletePanelsSchema :: schema where
  "DeletePanelsSchema = ZObject [(''ids'', ZArray (ZString []))]"

text \<open>
  Modelled from the spec: the handler of \<open>list_panels\<close> in \<^verbatim>\<open>panel-tools.ts\<close>, making the
  call that the tests expect.
\<close>

definition list_panels_handler :: "client \<Rightarrow> obj \<Rightarrow> response io" where
  "list_panels_handler client args = listPanels client (JObj args)"

text \<open>
  Modelled from the spec: the handler of \<open>get_panel\<close> in \<^verbatim>\<open>panel-tools.ts\<close>, making the
  call that the tests expect.
\<close>

definition get_panel_handler :: "client \<Rightarrow> obj \<Rightarrow> response io" where
  "get_panel_handler client args =
     (let ident = map_of args ''id''; params = omit ''id'' args
      in getPanel client ident (JObj params))"

text \<open>
  Modelled from the spec: the handler of \<open>create_panel\<close> in \<^verbatim>\<open>panel-tools.ts\<close>, making the
  call that the tests expect.
\<close>

definition create_panel_handler :: "client \<Rightarrow> obj \<Rightarrow> response io" where
  "create_panel_handler client args = createPanel client (JObj args)"

text \<open>
  Modelled from the spec: the handler of \<open>create_panels\<close> in \<^verbatim>\<open>panel-tools.ts\<close>, making the
  call that the tests expect.
\<close>

definition create_panels_handler :: "client \<Rightarrow> obj \<Rightarrow> response io" where
  "create_panels_handler client args = createPanels client (map_of args ''panels'')"

text \<open>
  Modelled from the spec: the handler of \<open>update_panel\<close> in \<^verbatim>\<open>panel-tools.ts\<close>, making the
  call that the tests expect.
\<close>

definition update_panel_handler :: "client \<Rightarrow> obj \<Rightarrow> response io" where
  "update_panel_handler client args =
     (let ident = map_of args ''id''; data = omit ''id'' args
      in updatePanel client ident (JObj data))"

text \<open>
  Modelled from the spec: the handler of \<open>update_panels\<close> in \<^verbatim>\<open>panel-tools.ts\<close>, making the
  call that the tests expect.
\<close>

definition update_panels_handler :: "client \<Rightarrow> obj \<Rightarrow> response io" where
  "update_panels_handler client args = updatePanels client (map_of args ''panels'')"

text \<open>
  Modelled from the spec: the handler of \<open>delete_panel\<close> in \<^verbatim>\<open>panel-tools.ts\<close>, making the
  call that the tests expect.
\<close>

definition delete_panel_handler :: "client \<Rightarrow> obj \<Rightarrow> response io" where
  "delete_panel_handler client args = deletePanel client (map_of args ''id'')"

text \<open>
  Modelled from the spec: the success message of \<open>delete_panel\<close> in \<^verbatim>\<open>panel-tools.ts\<close>,
  with the text that the tests expect.
\<close>

definition delete_panel_successMessage :: "obj \<Rightarrow> error + string" where
  "delete_panel_successMessage args =
     Inr (''Panel '' @ template (map_of args ''id'') @ '' deleted successfully'')"

text \<open>
  Modelled from the spec: the handler of \<open>delete_panels\<close> in \<^verbatim>\<open>panel-tools.ts\<close>, making the
  call that the tests expect.
\<close>

definition delete_panels_handler :: "client \<Rightarrow> obj \<Rightarrow> response io" where
  "delete_panels_handler client args = deletePanels client (map_of args ''ids'')"

text \<open>
  Modelled from the spec: the success message of \<open>delete_panels\<close> in \<^verbatim>\<open>panel-tools.ts\<close>,
  with the text that the tests expect.
\<close>

definition delete_panels_successMessage :: "obj \<Rightarrow> error + string" where
  "delete_panels_successMessage args =
     (case js_length (map_of args ''ids'') of
        Inl err \<Rightarrow> Inl err
      | Inr n \<Rightarrow> Inr (template n @ '' panels deleted successfully''))"

text \<open>
  Modelled from the spec: the configuration of \<open>list_panels\<close> in \<^verbatim>\<open>panel-tools.ts\<close>.
\<close>

definition list_panels_config :: "validators \<Rightarrow> panel_source \<Rightarrow> tool_config" where
  "list_panels_config v p =
     \<lparr>name = ''list_panels'',
      description = panelDescription p ''list_panels'',
      inputSchema = ListPanelsSchema v,
      toolsets = [''panels''],
      handler = list_panels_handler\<rparr>"

text \<open>
  Modelled from the spec: the configuration of \<open>get_panel\<close> in \<^verbatim>\<open>panel-tools.ts\<close>.
\<close>

definition get_panel_config :: "validators \<Rightarrow> panel_source \<Rightarrow> tool_config" where
  "get_panel_config v p =
     \<lparr>name = ''get_panel'',
      description = panelDescription p ''get_panel'',
      inputSchema = GetPanelSchema v,
      toolsets = [''panels''],
      handler = get_panel_handler\<rparr>"

text \<open>
  Modelled from the spec: the configuration of \<open>create_panel\<close> in \<^verbatim>\<open>panel-tools.ts\<close>.
\<close>

definition create_panel_config :: "panel_source \<Rightarrow> tool_config" where
  "create_panel_config p =
     \<lparr>name = ''create_panel'',
      description = panelDescription p ''create_panel'',
      inputSchema = CreatePanelSchema p,
      toolsets = [''panels''],
      handler = create_panel_handler\<rparr>"

text \<open>
  Modelled from the spec: the configuration of \<open>create_panels\<close> in \<^verbatim>\<open>panel-tools.ts\<close>.
\<close>

definition create_panels_config :: "panel_source \<Rightarrow> tool_config" where
  "create_panels_config p =
     \<lparr>name = ''create_panels'',
      description = panelDescription p ''create_panels'',
      inputSchema = CreatePanelsSchema p,
      toolsets = [''panels''],
      handler = create_panels_handler\<rparr>"

text \<open>
  Modelled from the spec: the configuration of \<open>update_panel\<close> in \<^verbatim>\<open>panel-tools.ts\<close>.
\<close>

definition update_panel_config :: "validators \<Rightarrow> panel_source \<Rightarrow> tool_config" where
  "update_panel_config v p =
     \<lparr>name = ''update_panel'',
      description = panelDescription p ''update_panel'',
      inputSchema = UpdatePanelSchema v p,
      toolsets = [''panels''],
      handler = update_panel_handler\<rparr>"

text \<open>
  Modelled from the spec: the configuration of \<open>update_panels\<close> in \<^verbatim>\<open>panel-tools.ts\<close>.
\<close>

definition update_panels_config :: "validators \<Rightarrow> panel_source \<Rightarrow> tool_config" where
  "update_panels_config v p =
     \<lparr>name = ''update_panels'',
      description = panelDescription p ''update_panels'',
      inputSchema = UpdatePanelsSchema v p,
      toolsets = [''panels''],
      handler = update_panels_handler\<rparr>"

text \<open>
  Modelled from the spec: the configuration of \<open>delete_panel\<close> in \<^verbatim>\<open>panel-tools.ts\<close>.
\<close>

definition delete_panel_config :: "validators \<Rightarrow> panel_source \<Rightarrow> action_config" where
  "delete_panel_config v p =
     \<lparr>name = ''delete_panel'',
      description = panelDescription p ''delete_panel'',
      inputSchema = DeletePanelSchema v,
      toolsets = [''panels''],
      handler = delete_panel_handler,
      successMessage = delete_panel_successMessage\<rparr>"

text \<open>
  Modelled from the spec: the configuration of \<open>delete_panels\<close> in \<^verbatim>\<open>panel-tools.ts\<close>.
\<close>

definition delete_panels_config :: "panel_source \<Rightarrow> action_config" where
  "delete_panels_config p =
     \<lparr>name = ''delete_panels'',
      description = panelDescription p ''delete_panels'',
      inputSchema = DeletePanelsSchema,
      toolsets = [''panels''],
      handler = delete_panels_handler,
      successMessage = delete_panels_successMessage\<rparr>"

text \<open>
  Modelled from the spec: the tool array of \<^verbatim>\<open>panel-tools.ts\<close>, one tool for each
  CRUD operation in the order of the dashboard array.
\<close>

definition panelToolConfigs :: "validators \<Rightarrow> panel_source \<Rightarrow> tool_source list" where
  "panelToolConfigs v p =
     [ToolConfig (list_panels_config v p),
      ToolConfig (get_panel_config v p),
      ToolConfig (create_panel_config p),
      ToolConfig (create_panels_config p),
      ToolConfig (update_panel_config v p),
      ToolConfig (update_panels_config v p),
      ActionToolConfig (delete_panel_config v p),
      ActionToolConfig (delete_panels_config p)]"

text \<open>
  Modelled from the spec: the exported array \<^verbatim>\<open>panelTools\<close> of \<^verbatim>\<open>panel-tools.ts\<close>.
\<close>

definition panelTools :: "validators \<Rightarrow> panel_source \<Rightarrow> MCPTool list" where
  "panelTools v p = map build_tool (panelToolConfigs v p)"

definition allToolConfigs :: "validators \<Rightarrow> panel_source \<Rightarrow> tool_source list" where
  "allToolConfigs v p = dashboardToolConfigs v @ panelToolConfigs v p"

definition allTools :: "validators \<Rightarrow> panel_source \<Rightarrow> MCPTool list" where
  "allTools v p = dashboardTools v @ panelTools v p"

section \<open>The documented mapping from tools to client calls\<close>

text \<open>
  The call that a tool is documented to make on validated arguments: a list or create
  tool passes the arguments on; a get or update tool extracts the id and passes the
  rest; a bulk tool unwraps its array; a delete tool passes the id or the ids.
  This table follows the specification and the expectations of the tests, and the
  handlers are compared with it.
\<close>

definition documented_call :: "string \<Rightarrow> obj \<Rightarrow> call" where
  "documented_call tool args =
     (if tool = ''list_dashboards'' then Call ''listDashboards'' [Some (JObj args)]
      else if tool = ''get_dashboard''
        then Call ''getDashboard'' [map_of args ''id'', Some (JObj (omit ''id'' args))]
      else if tool = ''create_dashboard'' then Call ''createDashboard'' [Some (JObj args)]
      else if tool = ''create_dashboards''
        then Call ''createDashboards'' [map_of args ''dashboards'']
      else if tool = ''update_dashboard''
        then Call ''updateDashboard'' [map_of args ''id'', Some (JObj (omit ''id'' args))]
      else if tool = ''update_dashboards''
        then Call ''updateDashboards'' [map_of args ''dashboards'']
      else if tool = ''delete_dashboard'' then Call ''deleteDashboard'' [map_of args ''id'']
      else if tool = ''delete_dashboards'' then Call ''deleteDashboards'' [map_of args ''ids'']
      else if tool = ''list_panels'' then Call ''listPanels'' [Some (JObj args)]
      else if tool = ''get_panel''
        then Call ''getPanel'' [map_of args ''id'', Some (JObj (omit ''id'' args))]
      else if tool = ''create_panel'' then Call ''createPanel'' [Some (JObj args)]
      else if tool = ''create_panels'' then Call ''createPanels'' [map_of args ''panels'']
      else if tool = ''update_panel''
        then Call ''updatePanel'' [map_of args ''id'', Some (JObj (omit ''id'' args))]
      else if tool = ''update_panels'' then Call ''updatePanels'' [map_of args ''panels'']
      else if tool = ''delete_panel'' then Call ''deletePanel'' [map_of args ''id'']
      else if tool = ''delete_panels'' then Call ''deletePanels'' [map_of args ''ids'']
      else Call [] [])"

section \<open>Auxiliary facts\<close>

lemmas client_methods =
  listDashboards_def getDashboard_def createDashboard_def createDashboards_def
  updateDashboard_def updateDashboards_def deleteDashboard_def deleteDashboards_def
  listPanels_def getPanel_def createPanel_def createPanels_def
  updatePanel_def updatePanels_def deletePanel_def deletePanels_def

lemmas handler_defs =
  list_dashboards_handler_def get_dashboard_handler_def create_dashboard_handler_def
  create_dashboards_handler_def update_dashboard_handler_def update_dashboards_handler_def
  delete_dashboard_handler_def delete_dashboards_handler_def
  list_panels_handler_def get_panel_handler_def create_panel_handler_def
  create_panels_handler_def update_panel_handler_def update_panels_handler_def
  delete_panel_handler_def delete_panels_handler_def

lemmas config_defs =
  list_dashboards_config_def get_dashboard_config_def create_dashboard_config_def
  create_dashboards_config_def update_dashboard_config_def update_dashboards_config_def
  delete_dashboard_config_def delete_dashboards_config_def
  list_panels_config_def get_panel_config_def create_panel_config_def
  create_panels_config_def update_panel_config_def update_panels_config_def
  delete_panel_config_def delete_panels_config_def

lemmas array_defs =
  allToolConfigs_def dashboardToolConfigs_def panelToolConfigs_def

lemma handlers_forward:
  "list_dashboards_handler client args log =
     (client log (documented_call ''list_dashboards'' args),
      log @ [documented_call ''list_dashboards'' args])"
  "get_dashboard_handler client args log =
     (client log (documented_call ''get_dashboard'' args),
      log @ [documented_call ''get_dashboard'' args])"
  "create_dashboard_handler client args log =
     (client log (documented_call ''create_dashboard'' args),
      log @ [documented_call ''create_dashboard'' args])"
  "create_dashboards_handler client args log =
     (client log (documented_call ''create_dashboards'' args),
      log @ [documented_call ''create_dashboards'' args])"
  "update_dashboard_handler client args log =
     (client log (documented_call ''update_dashboard'' args),
      log @ [documented_call ''update_dashboard'' args])"
  "update_dashboards_handler client args log =
     (client log (documented_call ''update_dashboards'' args),
      log @ [documented_call ''update_dashboards'' args])"
  "delete_dashboard_handler client args log =
     (client log (documented_call ''delete_dashboard'' args),
      log @ [documented_call ''delete_dashboard'' args])"
  "delete_dashboards_handler client args log =
     (client log (documented_call ''delete_dashboards'' args),
      log @ [documented_call ''delete_dashboards'' args])"
  "list_panels_handler client args log =
     (client log (documented_call ''list_panels'' args),
      log @ [documented_call ''list_panels'' args])"
  "get_panel_handler client args log =
     (client log (documented_call ''get_panel'' args),
      log @ [documented_call ''get_panel'' args])"
  "create_panel_handler client args log =
     (client log (documented_call ''create_panel'' args),
      log @ [documented_call ''create_panel'' args])"
  "create_panels_handler client args log =
     (client log (documented_call ''create_panels'' args),
      log @ [documented_call ''create_panels'' args])"
  "update_panel_handler client args log =
     (client log (documented_call ''update_panel'' args),
      log @ [documented_call ''update_panel'' args])"
  "update_panels_handler client args log =
     (client log (documented_call ''update_panels'' args),
      log @ [documented_call ''update_panels'' args])"
  "delete_panel_handler client args log =
     (client log (documented_call ''delete_panel'' args),
      log @ [documented_call ''delete_panel'' args])"
  "delete_panels_handler client args log =
     (client log (documented_call ''delete_panels'' args),
      log @ [documented_call ''delete_panels'' args])"
  by (simp_all add: handler_defs client_methods invoke_def documented_call_def)

lemma source_handler_forwards:
  assumes "s \<in> set (allToolConfigs v p)"
  shows "source_handler s client args log =
     (client log (documented_call (source_name s) args),
      log @ [documented_call (source_name s) args])"
  using assms unfolding array_defs config_defs
  by (auto simp add: handlers_forward)

lemma source_names:
  "map source_name (dashboardToolConfigs v) =
     [''list_dashboards'', ''get_dashboard'', ''create_dashboard'', ''create_dashboards'',
      ''update_dashboard'', ''update_dashboards'', ''delete_dashboard'', ''delete_dashboards'']"
  "map source_name (panelToolConfigs v p) =
     [''list_panels'', ''get_panel'', ''create_panel'', ''create_panels'',
      ''update_panel'', ''update_panels'', ''delete_panel'', ''delete_panels'']"
  by (simp_all add: array_defs config_defs)

lemma source_schemas:
  "map source_inputSchema (dashboardToolConfigs v) =
     [ListDashboardsSchema v, GetDashboardSchema v, CreateDashboardSchema v,
      CreateDashboardsSchema v, UpdateDashboardSchema v, UpdateDashboardsSchema v,
      DeleteDashboardSchema v, DeleteDashboardsSchema]"
  "map source_inputSchema (panelToolConfigs v p) =
     [ListPanelsSchema v, GetPanelSchema v, CreatePanelSchema p,
      CreatePanelsSchema p, UpdatePanelSchema v p, UpdatePanelsSchema v p,
      DeletePanelSchema v, DeletePanelsSchema]"
  by (simp_all add: array_defs config_defs)

lemma source_successMessage_by_name:
  assumes "s \<in> set (allToolConfigs v p)"
  shows "(source_successMessage s \<noteq> None) =
     (source_name s \<in>
        {''delete_dashboard'', ''delete_dashboards'', ''delete_panel'', ''delete_panels''})"
  using assms unfolding array_defs config_defs
  by auto

lemma build_tool_fields:
  "tool_name (build_tool s) = source_name s"
  "tool_description (build_tool s) = source_description s"
  "tool_inputSchema (build_tool s) = source_inputSchema s"
  "tool_toolsets (build_tool s) = source_toolsets s"
  "tool_successMessage (build_tool s) = source_successMessage s"
  by (cases s; simp add: createTool_def createActionTool_def)+

lemma build_tool_handler:
  "tool_handler (build_tool s) client args log =
     (case parse_args (source_inputSchema s) args of
        None \<Rightarrow> (Rejected, log)
      | Some validated \<Rightarrow>
          (case source_handler s client validated log of
             (Inl err, log') \<Rightarrow> (ErrorContent err, log')
           | (Inr result, log') \<Rightarrow>
               (case source_successMessage s of
                  None \<Rightarrow> (Content (JSON_stringify result), log')
                | Some f \<Rightarrow>
                    (case f validated of
                       Inl err \<Rightarrow> (ErrorContent err, log')
                     | Inr message \<Rightarrow> (Content message, log')))))"
  by (cases s)
    (auto simp add: createTool_def createActionTool_def
      split: option.splits sum.splits prod.splits)

lemma allTools_map: "allTools v p = map build_tool (allToolConfigs v p)"
  by (simp add: allTools_def allToolConfigs_def dashboardTools_def panelTools_def)

lemma tool_handler_eq:
  assumes "t \<in> set (allTools v p)"
  shows "tool_handler t client args log =
     (case parse_args (tool_inputSchema t) args of
        None \<Rightarrow> (Rejected, log)
      | Some validated \<Rightarrow>
          (case client log (documented_call (tool_name t) validated) of
             Inl err \<Rightarrow> ErrorContent err
           | Inr result \<Rightarrow>
               (case tool_successMessage t of
                  None \<Rightarrow> Content (JSON_stringify result)
                | Some f \<Rightarrow>
                    (case f validated of
                       Inl err \<Rightarrow> ErrorContent err
                     | Inr message \<Rightarrow> Content message)),
           log @ [documented_call (tool_name t) validated]))"
proof -
  from assms obtain s where s: "s \<in> set (allToolConfigs v p)" and t: "t = build_tool s"
    by (auto simp add: allTools_map)
  show ?thesis
    unfolding t build_tool_fields build_tool_handler
    by (simp add: source_handler_forwards [OF s] split: option.splits sum.splits)
qed

lemma tool_names:
  "map tool_name (dashboardTools v) =
     [''list_dashboards'', ''get_dashboard'', ''create_dashboard'', ''create_dashboards'',
      ''update_dashboard'', ''update_dashboards'', ''delete_dashboard'', ''delete_dashboards'']"
  "map tool_name (panelTools v p) =
     [''list_panels'', ''get_panel'', ''create_panel'', ''create_panels'',
      ''update_panel'', ''update_panels'', ''delete_panel'', ''delete_panels'']"
proof -
  have "tool_name \<circ> build_tool = source_name"
    by (simp add: fun_eq_iff build_tool_fields)
  then show
    "map tool_name (dashboardTools v) =
       [''list_dashboards'', ''get_dashboard'', ''create_dashboard'', ''create_dashboards'',
        ''update_dashboard'', ''update_dashboards'', ''delete_dashboard'', ''delete_dashboards'']"
    "map tool_name (panelTools v p) =
       [''list_panels'', ''get_panel'', ''create_panel'', ''create_panels'',
        ''update_panel'', ''update_panels'', ''delete_panel'', ''delete_panels'']"
    by (simp_all add: dashboardTools_def panelTools_def source_names)
qed

lemma tool_schemas:
  "map tool_inputSchema (dashboardTools v) =
     [ListDashboardsSchema v, GetDashboardSchema v, CreateDashboardSchema v,
      CreateDashboardsSchema v, UpdateDashboardSchema v, UpdateDashboardsSchema v,
      DeleteDashboardSchema v, DeleteDashboardsSchema]"
  "map tool_inputSchema (panelTools v p) =
     [ListPanelsSchema v, GetPanelSchema v, CreatePanelSchema p,
      CreatePanelsSchema p, UpdatePanelSchema v p, UpdatePanelsSchema v p,
      DeletePanelSchema v, DeletePanelsSchema]"
proof -
  have "tool_inputSchema \<circ> build_tool = source_inputSchema"
    by (simp add: fun_eq_iff build_tool_fields)
  then show
    "map tool_inputSchema (dashboardTools v) =
       [ListDashboardsSchema v, GetDashboardSchema v, CreateDashboardSchema v,
        CreateDashboardsSchema v, UpdateDashboardSchema v, UpdateDashboardsSchema v,
        DeleteDashboardSchema v, DeleteDashboardsSchema]"
    "map tool_inputSchema (panelTools v p) =
       [ListPanelsSchema v, GetPanelSchema v, CreatePanelSchema p,
        CreatePanelsSchema p, UpdatePanelSchema v p, UpdatePanelsSchema v p,
        DeletePanelSchema v, DeletePanelsSchema]"
    by (simp_all add: dashboardTools_def panelTools_def source_schemas)
qed

lemma successMessage_by_name:
  assumes "t \<in> set (allTools v p)"
  shows "(tool_successMessage t \<noteq> None) =
     (tool_name t \<in> {''delete_dashboard'', ''delete_dashboards'', ''delete_panel'', ''delete_panels''})"
proof -
  from assms obtain s where s: "s \<in> set (allToolConfigs v p)" and t: "t = build_tool s"
    by (auto simp add: allTools_map)
  show ?thesis
    unfolding t build_tool_fields by (rule source_successMessage_by_name [OF s])
qed

lemma documented_method:
  assumes "s \<in> set (allToolConfigs v p)"
  shows "(source_name s, method_name (documented_call (source_name s) args)) \<in> set
     [(''list_dashboards'', ''listDashboards''), (''get_dashboard'', ''getDashboard''),
      (''create_dashboard'', ''createDashboard''), (''create_dashboards'', ''createDashboards''),
      (''update_dashboard'', ''updateDashboard''), (''update_dashboards'', ''updateDashboards''),
      (''delete_dashboard'', ''deleteDashboard''), (''delete_dashboards'', ''deleteDashboards''),
      (''list_panels'', ''listPanels''), (''get_panel'', ''getPanel''),
      (''create_panel'', ''createPanel''), (''create_panels'', ''createPanels''),
      (''update_panel'', ''updatePanel''), (''update_panels'', ''updatePanels''),
      (''delete_panel'', ''deletePanel''), (''delete_panels'', ''deletePanels'')]"
proof -
  from assms
  have "source_name s \<in>
      set (map source_name (dashboardToolConfigs v) @ map source_name (panelToolConfigs v p))"
    by (auto simp add: allToolConfigs_def)
  then show ?thesis
    unfolding source_names by (auto simp add: documented_call_def)
qed

lemma configs_mem:
  "ToolConfig (list_dashboards_config v) \<in> set (allToolConfigs v p)"
  "ToolConfig (get_dashboard_config v) \<in> set (allToolConfigs v p)"
  "ToolConfig (create_dashboard_config v) \<in> set (allToolConfigs v p)"
  "ToolConfig (create_dashboards_config v) \<in> set (allToolConfigs v p)"
  "ToolConfig (update_dashboard_config v) \<in> set (allToolConfigs v p)"
  "ToolConfig (update_dashboards_config v) \<in> set (allToolConfigs v p)"
  "ActionToolConfig (delete_dashboard_config v) \<in> set (allToolConfigs v p)"
  "ActionToolConfig delete_dashboards_config \<in> set (allToolConfigs v p)"
  "ToolConfig (list_panels_config v p) \<in> set (allToolConfigs v p)"
  "ToolConfig (get_panel_config v p) \<in> set (allToolConfigs v p)"
  "ToolConfig (create_panel_config p) \<in> set (allToolConfigs v p)"
  "ToolConfig (create_panels_config p) \<in> set (allToolConfigs v p)"
  "ToolConfig (update_panel_config v p) \<in> set (allToolConfigs v p)"
  "ToolConfig (update_panels_config v p) \<in> set (allToolConfigs v p)"
  "ActionToolConfig (delete_panel_config v p) \<in> set (allToolConfigs v p)"
  "ActionToolConfig (delete_panels_config p) \<in> set (allToolConfigs v p)"
  by (simp_all add: array_defs)

lemma tools_mem:
  "createTool (list_dashboards_config v) \<in> set (allTools v p)"
  "createTool (get_dashboard_config v) \<in> set (allTools v p)"
  "createTool (create_dashboard_config v) \<in> set (allTools v p)"
  "createTool (create_dashboards_config v) \<in> set (allTools v p)"
  "createTool (update_dashboard_config v) \<in> set (allTools v p)"
  "createTool (update_dashboards_config v) \<in> set (allTools v p)"
  "createActionTool (delete_dashboard_config v) \<in> set (allTools v p)"
  "createActionTool delete_dashboards_config \<in> set (allTools v p)"
  "createTool (list_panels_config v p) \<in> set (allTools v p)"
  "createTool (get_panel_config v p) \<in> set (allTools v p)"
  "createTool (create_panel_config p) \<in> set (allTools v p)"
  "createTool (create_panels_config p) \<in> set (allTools v p)"
  "createTool (update_panel_config v p) \<in> set (allTools v p)"
  "createTool (update_panels_config v p) \<in> set (allTools v p)"
  "createActionTool (delete_panel_config v p) \<in> set (allTools v p)"
  "createActionTool (delete_panels_config p) \<in> set (allTools v p)"
  by (simp_all add: allTools_def dashboardTools_def panelTools_def
      dashboardToolConfigs_def panelToolConfigs_def)

lemma config_fields:
  "name (list_dashboards_config v) = ''list_dashboards''"
  "inputSchema (list_dashboards_config v) = ListDashboardsSchema v"
  "name (get_dashboard_config v) = ''get_dashboard''"
  "inputSchema (get_dashboard_config v) = GetDashboardSchema v"
  "handler (get_dashboard_config v) = get_dashboard_handler"
  "name (create_dashboard_config v) = ''create_dashboard''"
  "inputSchema (create_dashboard_config v) = CreateDashboardSchema v"
  "name (update_dashboard_config v) = ''update_dashboard''"
  "inputSchema (update_dashboard_config v) = UpdateDashboardSchema v"
  "handler (update_dashboard_config v) = update_dashboard_handler"
  "name (update_dashboards_config v) = ''update_dashboards''"
  "toolsets (update_dashboards_config v) = [''dashboards'']"
  "name (delete_dashboard_config v) = ''delete_dashboard''"
  "inputSchema (delete_dashboard_config v) = DeleteDashboardSchema v"
  "handler (delete_dashboard_config v) = delete_dashboard_handler"
  "successMessage (delete_dashboard_config v) = delete_dashboard_successMessage"
  "name delete_dashboards_config = ''delete_dashboards''"
  "inputSchema delete_dashboards_config = DeleteDashboardsSchema"
  "handler delete_dashboards_config = delete_dashboards_handler"
  "successMessage delete_dashboards_config = delete_dashboards_successMessage"
  "name (delete_panel_config v p) = ''delete_panel''"
  "inputSchema (delete_panel_config v p) = DeletePanelSchema v"
  "successMessage (delete_panel_config v p) = delete_panel_successMessage"
  "name (delete_panels_config p) = ''delete_panels''"
  "inputSchema (delete_panels_config p) = DeletePanelsSchema"
  "successMessage (delete_panels_config p) = delete_panels_successMessage"
  by (simp_all add: config_defs)

lemma tool_fields:
  "tool_name (createTool config) = name config"
  "tool_inputSchema (createTool config) = inputSchema config"
  "tool_successMessage (createTool config) = None"
  "tool_name (createActionTool action) = name action"
  "tool_inputSchema (createActionTool action) = inputSchema action"
  "tool_successMessage (createActionTool action) = Some (successMessage action)"
  by (simp_all add: createTool_def createActionTool_def)

lemma parse_val_string:
  "parse_val s (JStr x) = Some y \<Longrightarrow> y = JStr x"
  by (induction s) (auto split: if_splits)

lemma parse_list_strings:
  "parse_list (ZString []) xs = Some ys \<Longrightarrow> ys = xs"
  by (induction xs arbitrary: ys) (auto split: json.splits option.splits)

lemma omit_id:
  "map_of (omit key args) key = None"
  "k \<noteq> key \<Longrightarrow> map_of (omit key args) k = map_of args k"
  by (induction args) (auto simp add: omit_def)

lemma sample_uuid:
  "parse_val (UuidSchema sampleValidators) (JStr ''123e4567-e89b-12d3-a456-426614174000'') =
     Some (JStr ''123e4567-e89b-12d3-a456-426614174000'')"
  "parse_val (UuidSchema sampleValidators) (JStr ''not-a-uuid'') = None"
  "\<not> accepts_undefined (UuidSchema sampleValidators)"
  by (simp_all add: sampleValidators_def uuid_class_def is_hex_def uuid_pattern_def)

lemma sample_get_dashboard:
  "parse_args (GetDashboardSchema sampleValidators) (JObj []) = None"
  "parse_args (GetDashboardSchema sampleValidators)
     (JObj [(''id'', JStr ''123e4567-e89b-12d3-a456-426614174000''), (''extra'', JNull)]) =
   Some [(''id'', JStr ''123e4567-e89b-12d3-a456-426614174000'')]"
  by (simp_all add: parse_args_def GetDashboardSchema_def sample_uuid)
    (simp_all add: sampleValidators_def)

lemma sample_delete_dashboard:
  "parse_args (DeleteDashboardSchema sampleValidators)
     (JObj [(''id'', JStr ''123e4567-e89b-12d3-a456-426614174000'')]) =
   Some [(''id'', JStr ''123e4567-e89b-12d3-a456-426614174000'')]"
  "parse_args (DeleteDashboardSchema sampleValidators) (JObj [(''id'', JStr ''not-a-uuid'')]) = None"
  by (simp_all add: parse_args_def DeleteDashboardSchema_def sample_uuid)

lemma sample_list_dashboards:
  "parse_args (ListDashboardsSchema sampleValidators) (JObj []) = Some []"
  by (simp add: parse_args_def ListDashboardsSchema_def sampleValidators_def)

lemma stringify_example:
  "JSON_stringify (JObj [(''data'', JArr [])]) =
     ''{'' @ [CHR 0x0A] @ ''  '' @ [CHR 0x22] @ ''data'' @ [CHR 0x22] @ '': []'' @ [CHR 0x0A] @ ''}''"
  "JSON_stringify (JObj [(''success'', JBool True)]) =
     ''{'' @ [CHR 0x0A] @ ''  '' @ [CHR 0x22] @ ''success'' @ [CHR 0x22] @ '': true''
       @ [CHR 0x0A] @ ''}''"
  by (simp_all add: JSON_stringify_def quote_def escape_char_def newline_def)


lemma parse_id_object:
  assumes "parse_args (ZObject [(''id'', s)]) (JObj args) = Some validated"
    and "map_of args ''id'' = Some (JStr ident)"
  shows "validated = [(''id'', JStr ident)]"
proof -
  from assms obtain y where "parse_val s (JStr ident) = Some y" and "validated = [(''id'', y)]"
    by (auto simp add: parse_args_def split: option.splits)
  with parse_val_string show ?thesis by blast
qed

lemma parse_ids_object:
  assumes "parse_args (ZObject [(''ids'', ZDescribe (ZArray (ZString [])) d)]) (JObj args) = Some validated"
    and "map_of args ''ids'' = Some (JArr ids)"
  shows "validated = [(''ids'', JArr ids)]"
  using assms
  by (auto simp add: parse_args_def split: option.splits dest: parse_list_strings)

lemma parse_ids_object_plain:
  assumes "parse_args (ZObject [(''ids'', ZArray (ZString []))]) (JObj args) = Some validated"
    and "map_of args ''ids'' = Some (JArr ids)"
  shows "validated = [(''ids'', JArr ids)]"
  using assms
  by (auto simp add: parse_args_def split: option.splits dest: parse_list_strings)

lemma delete_message_text:
  "delete_dashboard_successMessage [(''id'', JStr ident)] =
     Inr (''Dashboard '' @ ident @ '' deleted successfully'')"
  "delete_panel_successMessage [(''id'', JStr ident)] =
     Inr (''Panel '' @ ident @ '' deleted successfully'')"
  "delete_dashboards_successMessage [(''ids'', JArr ids)] =
     Inr (show_nat (length ids) @ '' dashboards deleted successfully'')"
  "delete_panels_successMessage [(''ids'', JArr ids)] =
     Inr (show_nat (length ids) @ '' panels deleted successfully'')"
  by (simp_all add: delete_dashboard_successMessage_def delete_panel_successMessage_def
      delete_dashboards_successMessage_def delete_panels_successMessage_def
      template_def js_length_def number_of_nat_def)

lemma sample_delete_dashboards:
  "parse_args DeleteDashboardsSchema (JObj [(''ids'', JArr [JStr ''dash-1'', JStr ''dash-2''])]) =
     Some [(''ids'', JArr [JStr ''dash-1'', JStr ''dash-2''])]"
  "parse_args DeleteDashboardsSchema (JObj [(''ids'', JArr [JStr ''not-a-uuid''])]) =
     Some [(''ids'', JArr [JStr ''not-a-uuid''])]"
  by (simp_all add: parse_args_def DeleteDashboardsSchema_def)

lemma parse_required_first:
  assumes "parse_args (ZObject ((k, s) # shape)) input = Some validated"
    and "\<not> accepts_undefined s"
  shows "map_of validated k \<noteq> None"
  using assms
  by (auto simp add: parse_args_def split: json.splits option.splits if_splits)


lemma delete_configs:
  assumes "s \<in> set (allToolConfigs v p)"
    and "source_name s \<in>
      {''delete_dashboard'', ''delete_dashboards'', ''delete_panel'', ''delete_panels''}"
  shows "s = ActionToolConfig (delete_dashboard_config v) \<or>
     s = ActionToolConfig delete_dashboards_config \<or>
     s = ActionToolConfig (delete_panel_config v p) \<or>
     s = ActionToolConfig (delete_panels_config p)"
proof -
  have names:
    "name (list_dashboards_config v) = ''list_dashboards''"
    "name (get_dashboard_config v) = ''get_dashboard''"
    "name (create_dashboard_config v) = ''create_dashboard''"
    "name (create_dashboards_config v) = ''create_dashboards''"
    "name (update_dashboard_config v) = ''update_dashboard''"
    "name (update_dashboards_config v) = ''update_dashboards''"
    "name (list_panels_config v p) = ''list_panels''"
    "name (get_panel_config v p) = ''get_panel''"
    "name (create_panel_config p) = ''create_panel''"
    "name (create_panels_config p) = ''create_panels''"
    "name (update_panel_config v p) = ''update_panel''"
    "name (update_panels_config v p) = ''update_panels''"
    by (simp_all add: config_defs)
  from assms show ?thesis
    unfolding array_defs by (auto simp add: names)
qed

lemma parse_ids_shape:
  assumes "parse_args (ZObject [(''ids'', s)]) args = Some validated"
    and "s = ZArray (ZString []) \<or> s = ZDescribe (ZArray (ZString [])) d"
  shows "\<exists>ids. validated = [(''ids'', JArr ids)]"
  using assms
  by (auto simp add: parse_args_def split: json.splits option.splits)

lemma delete_formatter_total:
  assumes "s \<in> set (allToolConfigs v p)"
    and "source_name s \<in>
      {''delete_dashboard'', ''delete_dashboards'', ''delete_panel'', ''delete_panels''}"
    and "parse_args (source_inputSchema s) args = Some validated"
  shows "\<exists>f message. source_successMessage s = Some f \<and> f validated = Inr message"
proof -
  have bulk: "\<exists>ids. validated = [(''ids'', JArr ids)]"
    if "parse_args DeleteDashboardsSchema args = Some validated \<or>
      parse_args DeletePanelsSchema args = Some validated"
    using that unfolding DeleteDashboardsSchema_def DeletePanelsSchema_def
    by (auto dest: parse_ids_shape)
  from delete_configs [OF assms(1,2)] assms(3) show ?thesis
    by (auto simp add: config_fields delete_dashboard_successMessage_def
        delete_panel_successMessage_def delete_message_text dest!: bulk [OF disjI1] bulk [OF disjI2])
qed










section \<open>Claims\<close>

subsection \<open>Validation before forwarding\<close>

text \<open>
  Claim C2. The handler of every tool is wrapped with schema validation. An input that
  does not satisfy the input schema of the tool is rejected and the log of client calls
  is left as it was: no client method is called. An input that satisfies the schema is
  forwarded: the log gains the call documented for the tool, made on the validated
  arguments. The dashboard tools carry the dashboard schemas, and these reject an
  object with a missing required field: a missing name, a missing dashboards or ids
  array and, where the shared UUID schema does not accept an absent value, a missing
  id.
\<close>

theorem validation_before_forwarding:
  "(\<forall>t \<in> set (allTools v p). \<forall>client args log.
      (parse_args (tool_inputSchema t) args = None \<longrightarrow>
         tool_handler t client args log = (Rejected, log)) \<and>
      (\<forall>validated. parse_args (tool_inputSchema t) args = Some validated \<longrightarrow>
         snd (tool_handler t client args log) =
           log @ [documented_call (tool_name t) validated])) \<and>
   map tool_inputSchema (dashboardTools v) =
     [ListDashboardsSchema v, GetDashboardSchema v, CreateDashboardSchema v,
      CreateDashboardsSchema v, UpdateDashboardSchema v, UpdateDashboardsSchema v,
      DeleteDashboardSchema v, DeleteDashboardsSchema] \<and>
   parse_args (CreateDashboardSchema v) (JObj []) = None \<and>
   parse_args (CreateDashboardsSchema v) (JObj []) = None \<and>
   parse_args DeleteDashboardsSchema (JObj []) = None \<and>
   (\<not> accepts_undefined (UuidSchema v) \<longrightarrow>
      parse_args (GetDashboardSchema v) (JObj []) = None \<and>
      parse_args (UpdateDashboardSchema v) (JObj []) = None \<and>
      parse_args (DeleteDashboardSchema v) (JObj []) = None)"
proof -
  have wrapped: "\<forall>t \<in> set (allTools v p). \<forall>client args log.
      (parse_args (tool_inputSchema t) args = None \<longrightarrow>
         tool_handler t client args log = (Rejected, log)) \<and>
      (\<forall>validated. parse_args (tool_inputSchema t) args = Some validated \<longrightarrow>
         snd (tool_handler t client args log) =
           log @ [documented_call (tool_name t) validated])"
    by (simp add: tool_handler_eq)
  have required:
    "parse_args (CreateDashboardSchema v) (JObj []) = None"
    "parse_args (CreateDashboardsSchema v) (JObj []) = None"
    "parse_args DeleteDashboardsSchema (JObj []) = None"
    by (simp_all add: parse_args_def CreateDashboardSchema_def CreateDashboardsSchema_def
        DeleteDashboardsSchema_def)
  have ids: "\<not> accepts_undefined (UuidSchema v) \<longrightarrow>
      parse_args (GetDashboardSchema v) (JObj []) = None \<and>
      parse_args (UpdateDashboardSchema v) (JObj []) = None \<and>
      parse_args (DeleteDashboardSchema v) (JObj []) = None"
    by (simp add: parse_args_def GetDashboardSchema_def UpdateDashboardSchema_def
        DeleteDashboardSchema_def)
  from wrapped required ids tool_schemas(1) show ?thesis by blast
qed

theorem validation_before_forwarding_witness:
  "tool_handler (createTool (get_dashboard_config sampleValidators)) (\<lambda>log c. Inr JNull)
     (JObj []) [] = (Rejected, []) \<and>
   snd (tool_handler (createTool (get_dashboard_config sampleValidators)) (\<lambda>log c. Inr JNull)
     (JObj [(''id'', JStr ''123e4567-e89b-12d3-a456-426614174000''), (''extra'', JNull)]) []) =
     [Call ''getDashboard'' [Some (JStr ''123e4567-e89b-12d3-a456-426614174000''), Some (JObj [])]]"
proof -
  note wrapped =
    validation_before_forwarding [of sampleValidators samplePanelSource, THEN conjunct1,
      rule_format, OF tools_mem(2)]
  have "tool_handler (createTool (get_dashboard_config sampleValidators)) (\<lambda>log c. Inr JNull)
     (JObj []) [] = (Rejected, [])"
    by (rule wrapped [THEN conjunct1, rule_format])
      (simp add: tool_fields config_fields sample_get_dashboard)
  moreover
  have "snd (tool_handler (createTool (get_dashboard_config sampleValidators)) (\<lambda>log c. Inr JNull)
     (JObj [(''id'', JStr ''123e4567-e89b-12d3-a456-426614174000''), (''extra'', JNull)]) []) =
     [] @ [documented_call (tool_name (createTool (get_dashboard_config sampleValidators)))
       [(''id'', JStr ''123e4567-e89b-12d3-a456-426614174000'')]]"
    by (rule wrapped [THEN conjunct2, rule_format])
      (simp add: tool_fields config_fields sample_get_dashboard)
  ultimately show ?thesis
    by (simp add: tool_fields config_fields documented_call_def omit_def)
qed

subsection \<open>Failure of the backend\<close>

text \<open>
  Claim C3. For every tool and every input that passes validation, when the client
  method that the tool calls fails with an error, the tool returns that error,
  stringified, in the error envelope, and the log has gained that one call and no other:
  the call is not retried and nothing else is tried.
\<close>

theorem backend_failure_is_caught:
  "\<forall>t \<in> set (allTools v p). \<forall>client args log validated err.
      parse_args (tool_inputSchema t) args = Some validated \<longrightarrow>
      client log (documented_call (tool_name t) validated) = Inl err \<longrightarrow>
        tool_handler t client args log =
          (ErrorContent err, log @ [documented_call (tool_name t) validated])"
  by (simp add: tool_handler_eq)

theorem backend_failure_is_caught_witness:
  "tool_handler (createTool (get_dashboard_config sampleValidators))
     (\<lambda>log c. Inl ''503 Service Unavailable'')
     (JObj [(''id'', JStr ''123e4567-e89b-12d3-a456-426614174000''), (''extra'', JNull)]) [] =
   (ErrorContent ''503 Service Unavailable'',
    [Call ''getDashboard'' [Some (JStr ''123e4567-e89b-12d3-a456-426614174000''), Some (JObj [])]])"
proof -
  have "tool_handler (createTool (get_dashboard_config sampleValidators))
     (\<lambda>log c. Inl ''503 Service Unavailable'')
     (JObj [(''id'', JStr ''123e4567-e89b-12d3-a456-426614174000''), (''extra'', JNull)]) [] =
   (ErrorContent ''503 Service Unavailable'',
    [] @ [documented_call (tool_name (createTool (get_dashboard_config sampleValidators)))
       [(''id'', JStr ''123e4567-e89b-12d3-a456-426614174000'')]])"
    by (rule backend_failure_is_caught [of sampleValidators samplePanelSource, rule_format,
          OF tools_mem(2)])
      (simp_all add: tool_fields config_fields sample_get_dashboard)
  then show ?thesis
    by (simp add: tool_fields config_fields documented_call_def omit_def)
qed

subsection \<open>The text of a result\<close>

text \<open>
  Claim C1, as stated: every tool of the two sets returns the response of the backend,
  serialized as pretty-printed JSON, as the text of its result. This fails for the
  delete tools: \<open>delete_dashboard\<close>, run on a valid id with a backend that answers
  \<^verbatim>\<open>{success: true}\<close>, makes its one call and returns the text of its success
  message, which is not the serialized response.
\<close>

theorem delete_returns_message_not_response:
  "parse_args (tool_inputSchema (createActionTool (delete_dashboard_config sampleValidators)))
     (JObj [(''id'', JStr ''123e4567-e89b-12d3-a456-426614174000'')]) =
     Some [(''id'', JStr ''123e4567-e89b-12d3-a456-426614174000'')] \<and>
   tool_handler (createActionTool (delete_dashboard_config sampleValidators))
     (\<lambda>log c. Inr (JObj [(''success'', JBool True)]))
     (JObj [(''id'', JStr ''123e4567-e89b-12d3-a456-426614174000'')]) [] =
     (Content ''Dashboard 123e4567-e89b-12d3-a456-426614174000 deleted successfully'',
      [Call ''deleteDashboard'' [Some (JStr ''123e4567-e89b-12d3-a456-426614174000'')]]) \<and>
   Content ''Dashboard 123e4567-e89b-12d3-a456-426614174000 deleted successfully'' \<noteq>
     Content (JSON_stringify (JObj [(''success'', JBool True)]))"
  by (simp add: tool_handler_eq [OF tools_mem(7)] tool_fields config_fields
      sample_delete_dashboard documented_call_def delete_dashboard_successMessage_def
      template_def stringify_example)

text \<open>
  Claim C1, amended. For every tool of the two sets and every input that passes
  validation, when the call to the backend succeeds the handler has made a single client
  call, the one documented for the tool. A tool other than the four delete tools
  returns the response serialized as pretty-printed JSON as the text of its result. A
  delete tool returns instead, as the text of its result, the message that its
  success-message formatter gives for the validated arguments; on validated arguments
  the formatter always gives a message.
\<close>

theorem response_serialized_unless_delete:
  "\<forall>t \<in> set (allTools v p). \<forall>client args log validated result.
      parse_args (tool_inputSchema t) args = Some validated \<longrightarrow>
      client log (documented_call (tool_name t) validated) = Inr result \<longrightarrow>
        snd (tool_handler t client args log) =
          log @ [documented_call (tool_name t) validated] \<and>
        (tool_name t \<notin>
           {''delete_dashboard'', ''delete_dashboards'', ''delete_panel'', ''delete_panels''} \<longrightarrow>
           fst (tool_handler t client args log) = Content (JSON_stringify result)) \<and>
        (tool_name t \<in>
           {''delete_dashboard'', ''delete_dashboards'', ''delete_panel'', ''delete_panels''} \<longrightarrow>
           (\<exists>f message. tool_successMessage t = Some f \<and> f validated = Inr message \<and>
              fst (tool_handler t client args log) = Content message))"
proof (intro ballI allI impI)
  fix t and client :: client and args log validated result
  assume t: "t \<in> set (allTools v p)"
    and ok: "parse_args (tool_inputSchema t) args = Some validated"
    and res: "client log (documented_call (tool_name t) validated) = Inr result"
  from t obtain s where s: "s \<in> set (allToolConfigs v p)" and build: "t = build_tool s"
    by (auto simp add: allTools_map)
  have h: "tool_handler t client args log =
      (case tool_successMessage t of
         None \<Rightarrow> Content (JSON_stringify result)
       | Some f \<Rightarrow>
           (case f validated of
              Inl err \<Rightarrow> ErrorContent err
            | Inr message \<Rightarrow> Content message),
       log @ [documented_call (tool_name t) validated])"
    by (simp add: tool_handler_eq [OF t] ok res)
  have total: "\<exists>f message. tool_successMessage t = Some f \<and> f validated = Inr message"
    if "tool_name t \<in>
       {''delete_dashboard'', ''delete_dashboards'', ''delete_panel'', ''delete_panels''}"
    using delete_formatter_total [OF s, of args validated] that ok
    unfolding build build_tool_fields by simp
  show "snd (tool_handler t client args log) =
          log @ [documented_call (tool_name t) validated] \<and>
        (tool_name t \<notin>
           {''delete_dashboard'', ''delete_dashboards'', ''delete_panel'', ''delete_panels''} \<longrightarrow>
           fst (tool_handler t client args log) = Content (JSON_stringify result)) \<and>
        (tool_name t \<in>
           {''delete_dashboard'', ''delete_dashboards'', ''delete_panel'', ''delete_panels''} \<longrightarrow>
           (\<exists>f message. tool_successMessage t = Some f \<and> f validated = Inr message \<and>
              fst (tool_handler t client args log) = Content message))"
  proof (intro conjI impI)
    show "snd (tool_handler t client args log) = log @ [documented_call (tool_name t) validated]"
      by (simp add: h)
  next
    assume "tool_name t \<notin>
       {''delete_dashboard'', ''delete_dashboards'', ''delete_panel'', ''delete_panels''}"
    with successMessage_by_name [OF t] have "tool_successMessage t = None"
      by simp
    then show "fst (tool_handler t client args log) = Content (JSON_stringify result)"
      by (simp add: h)
  next
    assume "tool_name t \<in>
       {''delete_dashboard'', ''delete_dashboards'', ''delete_panel'', ''delete_panels''}"
    from total [OF this] obtain f message
      where "tool_successMessage t = Some f" and "f validated = Inr message"
      by blast
    then show "\<exists>f message. tool_successMessage t = Some f \<and> f validated = Inr message \<and>
        fst (tool_handler t client args log) = Content message"
      by (simp add: h)
  qed
qed

theorem response_serialized_unless_delete_witness:
  "tool_handler (createTool (list_dashboards_config sampleValidators))
     (\<lambda>log c. Inr (JObj [(''data'', JArr [])])) (JObj []) [] =
   (Content (''{'' @ [CHR 0x0A] @ ''  '' @ [CHR 0x22] @ ''data'' @ [CHR 0x22] @ '': []''
      @ [CHR 0x0A] @ ''}''),
    [Call ''listDashboards'' [Some (JObj [])]])"
proof -
  note serialized =
    response_serialized_unless_delete [of sampleValidators samplePanelSource, rule_format,
      OF tools_mem(1), of "JObj []" "[]" "\<lambda>log c. Inr (JObj [(''data'', JArr [])])" "[]"
        "JObj [(''data'', JArr [])]"]
  have ok: "parse_args (tool_inputSchema (createTool (list_dashboards_config sampleValidators)))
      (JObj []) = Some []"
    by (simp add: tool_fields config_fields sample_list_dashboards)
  from serialized [OF ok] show ?thesis
    by (simp add: tool_fields config_fields documented_call_def stringify_example prod_eq_iff)
qed

subsection \<open>The tool descriptors\<close>

text \<open>
  Claim C4. Every element of the dashboard and panel tool arrays is made from a
  configuration with a name, a description, an input schema, a list of toolset tags
  and a handler, and the descriptor made from it carries these five unchanged. The name
  and the tags are not empty, the tag is that of the resource, and the description of a
  dashboard tool is not empty. A success-message formatter is given for the four delete
  tools and for no other tool, and the descriptor carries it exactly then.
\<close>

theorem formatter_only_on_delete_tools:
  "(\<forall>s \<in> set (allToolConfigs v p).
      (source_successMessage s \<noteq> None) =
        (source_name s \<in>
           {''delete_dashboard'', ''delete_dashboards'', ''delete_panel'', ''delete_panels''}) \<and>
      source_name s \<noteq> [] \<and> source_toolsets s \<noteq> [] \<and>
      tool_name (build_tool s) = source_name s \<and>
      tool_description (build_tool s) = source_description s \<and>
      tool_inputSchema (build_tool s) = source_inputSchema s \<and>
      tool_toolsets (build_tool s) = source_toolsets s \<and>
      tool_successMessage (build_tool s) = source_successMessage s) \<and>
   (\<forall>s \<in> set (dashboardToolConfigs v).
      source_toolsets s = [''dashboards''] \<and> source_description s \<noteq> []) \<and>
   (\<forall>s \<in> set (panelToolConfigs v p). source_toolsets s = [''panels'']) \<and>
   allTools v p = map build_tool (allToolConfigs v p) \<and>
   length (dashboardToolConfigs v) = 8 \<and> length (panelToolConfigs v p) = 8"
proof -
  have names: "\<forall>s \<in> set (allToolConfigs v p). source_name s \<noteq> [] \<and> source_toolsets s \<noteq> []"
    unfolding array_defs config_defs by simp
  have dash: "\<forall>s \<in> set (dashboardToolConfigs v).
      source_toolsets s = [''dashboards''] \<and> source_description s \<noteq> []"
    unfolding array_defs config_defs by simp
  have panel: "\<forall>s \<in> set (panelToolConfigs v p). source_toolsets s = [''panels'']"
    unfolding array_defs config_defs by simp
  have count: "length (dashboardToolConfigs v) = 8" "length (panelToolConfigs v p) = 8"
    by (simp_all add: array_defs)
  from names dash panel count source_successMessage_by_name [of _ v p] allTools_map [of v p]
  show ?thesis
    by (simp add: build_tool_fields)
qed

theorem formatter_only_on_delete_tools_witness:
  "source_successMessage (ActionToolConfig delete_dashboards_config) \<noteq> None \<and>
   source_successMessage (ToolConfig (update_dashboards_config sampleValidators)) = None \<and>
   tool_successMessage (createTool (update_dashboards_config sampleValidators)) = None \<and>
   source_toolsets (ToolConfig (update_dashboards_config sampleValidators)) = [''dashboards'']"
proof -
  note all = formatter_only_on_delete_tools [of sampleValidators samplePanelSource]
  note each = all [THEN conjunct1, rule_format]
  have "source_successMessage (ActionToolConfig delete_dashboards_config) \<noteq> None"
    using each [OF configs_mem(8)] by (simp add: config_fields)
  moreover
  have "source_successMessage (ToolConfig (update_dashboards_config sampleValidators)) = None"
    "tool_successMessage (createTool (update_dashboards_config sampleValidators)) = None"
    using each [OF configs_mem(6)] by (simp_all add: config_fields)
  moreover
  have "source_toolsets (ToolConfig (update_dashboards_config sampleValidators)) = [''dashboards'']"
    using all [THEN conjunct2, THEN conjunct1, rule_format,
        of "ToolConfig (update_dashboards_config sampleValidators)"]
    by (simp add: dashboardToolConfigs_def)
  ultimately show ?thesis by simp
qed

subsection \<open>One call for one invocation\<close>

text \<open>
  Claim C6. The handler of every tool configuration, run on any arguments, calls one
  client method once: it returns the answer of the client to the documented call and
  the log extended by that call alone. The arguments are passed on unchanged apart
  from the documented reshaping (the id is extracted, the dashboards, panels or ids
  wrapper is unwrapped), which \<open>documented_call\<close> spells out. Accordingly one
  invocation of a tool on an input that passes validation extends the log by exactly
  one call, the documented call on the validated arguments.
\<close>

theorem one_call_per_invocation:
  "(\<forall>s \<in> set (allToolConfigs v p). \<forall>client args log.
      source_handler s client args log =
        (client log (documented_call (source_name s) args),
         log @ [documented_call (source_name s) args])) \<and>
   (\<forall>t \<in> set (allTools v p). \<forall>client args log validated.
      parse_args (tool_inputSchema t) args = Some validated \<longrightarrow>
        snd (tool_handler t client args log) =
          log @ [documented_call (tool_name t) validated] \<and>
        length (snd (tool_handler t client args log)) = Suc (length log))"
proof -
  have "\<forall>t \<in> set (allTools v p). \<forall>client args log validated.
      parse_args (tool_inputSchema t) args = Some validated \<longrightarrow>
        snd (tool_handler t client args log) =
          log @ [documented_call (tool_name t) validated] \<and>
        length (snd (tool_handler t client args log)) = Suc (length log)"
    by (simp add: tool_handler_eq)
  then show ?thesis
    by (simp add: source_handler_forwards)
qed

theorem one_call_per_invocation_witness:
  "update_dashboard_handler (\<lambda>log c. Inr JNull)
     [(''id'', JStr ''dash-1''), (''name'', JStr ''Updated Dashboard''), (''color'', JStr ''#4CAF50'')]
     [] =
   (Inr JNull,
    [Call ''updateDashboard''
       [Some (JStr ''dash-1''),
        Some (JObj [(''name'', JStr ''Updated Dashboard''), (''color'', JStr ''#4CAF50'')])]]) \<and>
   snd (tool_handler (createTool (get_dashboard_config sampleValidators)) (\<lambda>log c. Inr JNull)
     (JObj [(''id'', JStr ''123e4567-e89b-12d3-a456-426614174000''), (''extra'', JNull)])
     [Call ''listDashboards'' [Some (JObj [])]]) =
   [Call ''listDashboards'' [Some (JObj [])],
    Call ''getDashboard'' [Some (JStr ''123e4567-e89b-12d3-a456-426614174000''), Some (JObj [])]]"
proof -
  note all = one_call_per_invocation [of sampleValidators samplePanelSource]
  from all [THEN conjunct1, rule_format, OF configs_mem(5)]
  have source: "update_dashboard_handler client args log =
      (client log (documented_call ''update_dashboard'' args),
       log @ [documented_call ''update_dashboard'' args])" for client args log
    by (simp add: config_fields)
  have ok: "parse_args (tool_inputSchema (createTool (get_dashboard_config sampleValidators)))
      (JObj [(''id'', JStr ''123e4567-e89b-12d3-a456-426614174000''), (''extra'', JNull)]) =
      Some [(''id'', JStr ''123e4567-e89b-12d3-a456-426614174000'')]"
    by (simp add: tool_fields config_fields sample_get_dashboard)
  from all [THEN conjunct2, rule_format, OF tools_mem(2) ok, THEN conjunct1] source
  show ?thesis
    by (simp add: tool_fields config_fields documented_call_def omit_def)
qed

subsection \<open>One tool for each operation\<close>

text \<open>
  Claim C7. The dashboard set consists of the eight tools \<open>list_dashboards\<close>,
  \<open>get_dashboard\<close>, \<open>create_dashboard\<close>, \<open>create_dashboards\<close>, \<open>update_dashboard\<close>,
  \<open>update_dashboards\<close>, \<open>delete_dashboard\<close> and \<open>delete_dashboards\<close>, in this order, and
  the panel set of the eight panel tools named likewise; the sixteen names are
  distinct. The handler of each tool calls the client method of the corresponding
  name (\<open>listDashboards\<close> for \<open>list_dashboards\<close>, and so on), and so does the tool on
  an input that passes validation.
\<close>

theorem one_tool_per_operation:
  "map source_name (dashboardToolConfigs v) =
     [''list_dashboards'', ''get_dashboard'', ''create_dashboard'', ''create_dashboards'',
      ''update_dashboard'', ''update_dashboards'', ''delete_dashboard'', ''delete_dashboards''] \<and>
   map source_name (panelToolConfigs v p) =
     [''list_panels'', ''get_panel'', ''create_panel'', ''create_panels'',
      ''update_panel'', ''update_panels'', ''delete_panel'', ''delete_panels''] \<and>
   map tool_name (dashboardTools v) = map source_name (dashboardToolConfigs v) \<and>
   map tool_name (panelTools v p) = map source_name (panelToolConfigs v p) \<and>
   distinct (map source_name (allToolConfigs v p)) \<and>
   (\<forall>s \<in> set (allToolConfigs v p). \<forall>client args log.
      \<exists>c. snd (source_handler s client args log) = log @ [c] \<and>
        (source_name s, method_name c) \<in> set
          [(''list_dashboards'', ''listDashboards''), (''get_dashboard'', ''getDashboard''),
           (''create_dashboard'', ''createDashboard''),
           (''create_dashboards'', ''createDashboards''),
           (''update_dashboard'', ''updateDashboard''),
           (''update_dashboards'', ''updateDashboards''),
           (''delete_dashboard'', ''deleteDashboard''),
           (''delete_dashboards'', ''deleteDashboards''),
           (''list_panels'', ''listPanels''), (''get_panel'', ''getPanel''),
           (''create_panel'', ''createPanel''), (''create_panels'', ''createPanels''),
           (''update_panel'', ''updatePanel''), (''update_panels'', ''updatePanels''),
           (''delete_panel'', ''deletePanel''), (''delete_panels'', ''deletePanels'')]) \<and>
   (\<forall>s \<in> set (allToolConfigs v p). \<forall>client args log validated.
      parse_args (source_inputSchema s) args = Some validated \<longrightarrow>
        snd (tool_handler (build_tool s) client args log) =
          snd (source_handler s client validated log))"
proof (intro conjI ballI allI impI)
  show "distinct (map source_name (allToolConfigs v p))"
    by (simp add: allToolConfigs_def source_names)
next
  fix s and client :: client and args log
  assume s: "s \<in> set (allToolConfigs v p)"
  have "snd (source_handler s client args log) = log @ [documented_call (source_name s) args]"
    by (simp add: source_handler_forwards [OF s])
  with documented_method [OF s, of args]
  show "\<exists>c. snd (source_handler s client args log) = log @ [c] \<and>
        (source_name s, method_name c) \<in> set
          [(''list_dashboards'', ''listDashboards''), (''get_dashboard'', ''getDashboard''),
           (''create_dashboard'', ''createDashboard''),
           (''create_dashboards'', ''createDashboards''),
           (''update_dashboard'', ''updateDashboard''),
           (''update_dashboards'', ''updateDashboards''),
           (''delete_dashboard'', ''deleteDashboard''),
           (''delete_dashboards'', ''deleteDashboards''),
           (''list_panels'', ''listPanels''), (''get_panel'', ''getPanel''),
           (''create_panel'', ''createPanel''), (''create_panels'', ''createPanels''),
           (''update_panel'', ''updatePanel''), (''update_panels'', ''updatePanels''),
           (''delete_panel'', ''deletePanel''), (''delete_panels'', ''deletePanels'')]"
    by blast
next
  fix s and client :: client and args log validated
  assume s: "s \<in> set (allToolConfigs v p)"
    and ok: "parse_args (source_inputSchema s) args = Some validated"
  show "snd (tool_handler (build_tool s) client args log) =
          snd (source_handler s client validated log)"
    by (simp add: build_tool_handler ok source_handler_forwards [OF s]
        split: sum.splits option.splits)
qed (simp_all add: source_names tool_names)

theorem one_tool_per_operation_witness:
  "map source_name (dashboardToolConfigs sampleValidators) =
     [''list_dashboards'', ''get_dashboard'', ''create_dashboard'', ''create_dashboards'',
      ''update_dashboard'', ''update_dashboards'', ''delete_dashboard'', ''delete_dashboards''] \<and>
   map method_name (snd (list_dashboards_handler (\<lambda>log c. Inr JNull) [] [])) =
     [''listDashboards'']"
proof -
  note all = one_tool_per_operation [of sampleValidators samplePanelSource]
  from all [THEN conjunct2, THEN conjunct2, THEN conjunct2, THEN conjunct2, THEN conjunct2,
      THEN conjunct1, rule_format, OF configs_mem(1), of "\<lambda>log c. Inr JNull" "[]" "[]"]
  have "map method_name (snd (list_dashboards_handler (\<lambda>log c. Inr JNull) [] [])) =
     [''listDashboards'']"
    by (auto simp add: config_defs)
  with all [THEN conjunct1] show ?thesis by simp
qed

subsection \<open>The id and the rest\<close>

text \<open>
  Claim C8. The handlers of the single-resource get, update and delete tools pass the
  \<open>id\<close> field of their arguments as the first argument of the client method. The
  object that the get and update handlers pass as the remaining parameters or the
  update payload has no \<open>id\<close> field, and every other field of the arguments is in it
  unchanged. The delete handlers pass the id alone. Where the shared UUID schema does
  not accept an absent value, the arguments that pass the validation of these dashboard
  tools have an \<open>id\<close>, so the first argument is defined.
\<close>

theorem id_extracted_rest_forwarded:
  "snd (get_dashboard_handler client args log) =
     log @ [Call ''getDashboard'' [map_of args ''id'', Some (JObj (omit ''id'' args))]] \<and>
   snd (update_dashboard_handler client args log) =
     log @ [Call ''updateDashboard'' [map_of args ''id'', Some (JObj (omit ''id'' args))]] \<and>
   snd (delete_dashboard_handler client args log) =
     log @ [Call ''deleteDashboard'' [map_of args ''id'']] \<and>
   snd (get_panel_handler client args log) =
     log @ [Call ''getPanel'' [map_of args ''id'', Some (JObj (omit ''id'' args))]] \<and>
   snd (update_panel_handler client args log) =
     log @ [Call ''updatePanel'' [map_of args ''id'', Some (JObj (omit ''id'' args))]] \<and>
   snd (delete_panel_handler client args log) =
     log @ [Call ''deletePanel'' [map_of args ''id'']] \<and>
   map_of (omit ''id'' args) ''id'' = None \<and>
   (\<forall>k. k \<noteq> ''id'' \<longrightarrow> map_of (omit ''id'' args) k = map_of args k) \<and>
   handler (get_dashboard_config v) = get_dashboard_handler \<and>
   handler (update_dashboard_config v) = update_dashboard_handler \<and>
   handler (delete_dashboard_config v) = delete_dashboard_handler \<and>
   (\<forall>input validated.
      \<not> accepts_undefined (UuidSchema v) \<longrightarrow>
      parse_args (inputSchema (get_dashboard_config v)) input = Some validated \<or>
      parse_args (inputSchema (update_dashboard_config v)) input = Some validated \<or>
      parse_args (inputSchema (delete_dashboard_config v)) input = Some validated \<longrightarrow>
        map_of validated ''id'' \<noteq> None)"
proof -
  have handlers:
    "snd (get_dashboard_handler client args log) =
       log @ [Call ''getDashboard'' [map_of args ''id'', Some (JObj (omit ''id'' args))]]"
    "snd (update_dashboard_handler client args log) =
       log @ [Call ''updateDashboard'' [map_of args ''id'', Some (JObj (omit ''id'' args))]]"
    "snd (delete_dashboard_handler client args log) =
       log @ [Call ''deleteDashboard'' [map_of args ''id'']]"
    "snd (get_panel_handler client args log) =
       log @ [Call ''getPanel'' [map_of args ''id'', Some (JObj (omit ''id'' args))]]"
    "snd (update_panel_handler client args log) =
       log @ [Call ''updatePanel'' [map_of args ''id'', Some (JObj (omit ''id'' args))]]"
    "snd (delete_panel_handler client args log) =
       log @ [Call ''deletePanel'' [map_of args ''id'']]"
    by (simp_all add: handler_defs client_methods invoke_def)
  have present: "map_of validated ''id'' \<noteq> None"
    if "\<not> accepts_undefined (UuidSchema v)"
      and "parse_args (inputSchema (get_dashboard_config v)) input = Some validated \<or>
        parse_args (inputSchema (update_dashboard_config v)) input = Some validated \<or>
        parse_args (inputSchema (delete_dashboard_config v)) input = Some validated"
    for input validated
    using that
    unfolding config_fields GetDashboardSchema_def UpdateDashboardSchema_def
      DeleteDashboardSchema_def
    by (auto dest: parse_required_first)
  from handlers present omit_id(1) [of "''id''" args] omit_id(2) [of _ "''id''" args]
  show ?thesis by (simp add: config_fields)
qed

theorem id_extracted_rest_forwarded_witness:
  "snd (update_dashboard_handler (\<lambda>log c. Inr JNull)
     [(''id'', JStr ''dash-1''), (''name'', JStr ''Updated Dashboard''), (''color'', JStr ''#4CAF50'')]
     []) =
   [Call ''updateDashboard''
      [Some (JStr ''dash-1''),
       Some (JObj [(''name'', JStr ''Updated Dashboard''), (''color'', JStr ''#4CAF50'')])]] \<and>
   map_of (omit ''id''
     [(''id'', JStr ''dash-1''), (''name'', JStr ''Updated Dashboard''), (''color'', JStr ''#4CAF50'')])
     ''color'' = Some (JStr ''#4CAF50'') \<and>
   map_of [(''id'', JStr ''123e4567-e89b-12d3-a456-426614174000'')] ''id'' \<noteq> None"
proof -
  note all =
    id_extracted_rest_forwarded [of "\<lambda>log c. Inr JNull"
      "[(''id'', JStr ''dash-1''), (''name'', JStr ''Updated Dashboard''), (''color'', JStr ''#4CAF50'')]"
      "[]" sampleValidators]
  have ok: "parse_args (inputSchema (get_dashboard_config sampleValidators))
      (JObj [(''id'', JStr ''123e4567-e89b-12d3-a456-426614174000''), (''extra'', JNull)]) =
      Some [(''id'', JStr ''123e4567-e89b-12d3-a456-426614174000'')]"
    by (simp add: config_fields sample_get_dashboard)
  have present: "map_of [(''id'', JStr ''123e4567-e89b-12d3-a456-426614174000'')] ''id'' \<noteq> None"
    by (rule all [THEN conjunct2, THEN conjunct2, THEN conjunct2, THEN conjunct2,
          THEN conjunct2, THEN conjunct2, THEN conjunct2, THEN conjunct2, THEN conjunct2,
          THEN conjunct2, THEN conjunct2, rule_format, OF sample_uuid(3) disjI1, OF ok])
  have "''color'' \<noteq> ''id''" by simp
  with all present show ?thesis
    by (simp add: omit_def)
qed

subsection \<open>The text of a delete tool\<close>

text \<open>
  Claim C9. The text that a delete tool returns is determined by its validated input
  and not by the response of the backend: two runs on the same arguments, with clients
  that both answer the call successfully but with different responses, return the same
  result. For an argument object whose \<open>id\<close> is the string \<open>ident\<close> and that passes
  validation, \<open>delete_dashboard\<close> returns the text \<open>Dashboard ident deleted successfully\<close>;
  for one whose \<open>ids\<close> is an array of \<open>n\<close> elements, \<open>delete_dashboards\<close> returns
  \<open>n dashboards deleted successfully\<close>. The panel tools do the same with \<open>Panel\<close> and
  \<open>panels\<close>.
\<close>

theorem delete_text_ignores_response:
  "(\<forall>t \<in> set (allTools v p).
      tool_name t \<in>
        {''delete_dashboard'', ''delete_dashboards'', ''delete_panel'', ''delete_panels''} \<longrightarrow>
      (\<forall>client1 client2 args log validated r1 r2.
         parse_args (tool_inputSchema t) args = Some validated \<longrightarrow>
         client1 log (documented_call (tool_name t) validated) = Inr r1 \<longrightarrow>
         client2 log (documented_call (tool_name t) validated) = Inr r2 \<longrightarrow>
           fst (tool_handler t client1 args log) = fst (tool_handler t client2 args log))) \<and>
   (\<forall>client args log ident r.
      map_of args ''id'' = Some (JStr ident) \<longrightarrow>
      parse_args (DeleteDashboardSchema v) (JObj args) \<noteq> None \<longrightarrow>
      client log (Call ''deleteDashboard'' [Some (JStr ident)]) = Inr r \<longrightarrow>
        fst (tool_handler (createActionTool (delete_dashboard_config v)) client (JObj args) log) =
          Content (''Dashboard '' @ ident @ '' deleted successfully'')) \<and>
   (\<forall>client args log ids r.
      map_of args ''ids'' = Some (JArr ids) \<longrightarrow>
      parse_args DeleteDashboardsSchema (JObj args) \<noteq> None \<longrightarrow>
      client log (Call ''deleteDashboards'' [Some (JArr ids)]) = Inr r \<longrightarrow>
        fst (tool_handler (createActionTool delete_dashboards_config) client (JObj args) log) =
          Content (show_nat (length ids) @ '' dashboards deleted successfully'')) \<and>
   (\<forall>client args log ident r.
      map_of args ''id'' = Some (JStr ident) \<longrightarrow>
      parse_args (DeletePanelSchema v) (JObj args) \<noteq> None \<longrightarrow>
      client log (Call ''deletePanel'' [Some (JStr ident)]) = Inr r \<longrightarrow>
        fst (tool_handler (createActionTool (delete_panel_config v p)) client (JObj args) log) =
          Content (''Panel '' @ ident @ '' deleted successfully'')) \<and>
   (\<forall>client args log ids r.
      map_of args ''ids'' = Some (JArr ids) \<longrightarrow>
      parse_args DeletePanelsSchema (JObj args) \<noteq> None \<longrightarrow>
      client log (Call ''deletePanels'' [Some (JArr ids)]) = Inr r \<longrightarrow>
        fst (tool_handler (createActionTool (delete_panels_config p)) client (JObj args) log) =
          Content (show_nat (length ids) @ '' panels deleted successfully''))"
proof (intro conjI ballI allI impI)
  fix t and client1 client2 :: client and args log validated r1 r2
  assume t: "t \<in> set (allTools v p)"
    and ok: "parse_args (tool_inputSchema t) args = Some validated"
    and r1: "client1 log (documented_call (tool_name t) validated) = Inr r1"
    and r2: "client2 log (documented_call (tool_name t) validated) = Inr r2"
    and del: "tool_name t \<in>
        {''delete_dashboard'', ''delete_dashboards'', ''delete_panel'', ''delete_panels''}"
  from successMessage_by_name [OF t] del obtain f where f: "tool_successMessage t = Some f"
    by auto
  show "fst (tool_handler t client1 args log) = fst (tool_handler t client2 args log)"
    by (simp add: tool_handler_eq [OF t] ok r1 r2 f)
next
  fix client :: client and args log ident r
  assume ident: "map_of args ''id'' = Some (JStr ident)"
    and ok: "parse_args (DeleteDashboardSchema v) (JObj args) \<noteq> None"
    and r: "client log (Call ''deleteDashboard'' [Some (JStr ident)]) = Inr r"
  from ok obtain validated where
    validated: "parse_args (DeleteDashboardSchema v) (JObj args) = Some validated"
    by auto
  then have "validated = [(''id'', JStr ident)]"
    unfolding DeleteDashboardSchema_def by (rule parse_id_object) (rule ident)
  with validated r
  show "fst (tool_handler (createActionTool (delete_dashboard_config v)) client (JObj args) log) =
          Content (''Dashboard '' @ ident @ '' deleted successfully'')"
    by (simp add: tool_handler_eq [OF tools_mem(7)] tool_fields config_fields
        documented_call_def delete_message_text)
next
  fix client :: client and args log ids r
  assume ids: "map_of args ''ids'' = Some (JArr ids)"
    and ok: "parse_args DeleteDashboardsSchema (JObj args) \<noteq> None"
    and r: "client log (Call ''deleteDashboards'' [Some (JArr ids)]) = Inr r"
  from ok obtain validated where
    validated: "parse_args DeleteDashboardsSchema (JObj args) = Some validated"
    by auto
  then have "validated = [(''ids'', JArr ids)]"
    unfolding DeleteDashboardsSchema_def by (rule parse_ids_object) (rule ids)
  with validated r
  show "fst (tool_handler (createActionTool delete_dashboards_config) client (JObj args) log) =
          Content (show_nat (length ids) @ '' dashboards deleted successfully'')"
    by (simp add: tool_handler_eq [OF tools_mem(8)] tool_fields config_fields
        documented_call_def delete_message_text)
next
  fix client :: client and args log ident r
  assume ident: "map_of args ''id'' = Some (JStr ident)"
    and ok: "parse_args (DeletePanelSchema v) (JObj args) \<noteq> None"
    and r: "client log (Call ''deletePanel'' [Some (JStr ident)]) = Inr r"
  from ok obtain validated where
    validated: "parse_args (DeletePanelSchema v) (JObj args) = Some validated"
    by auto
  then have "validated = [(''id'', JStr ident)]"
    unfolding DeletePanelSchema_def by (rule parse_id_object) (rule ident)
  with validated r
  show "fst (tool_handler (createActionTool (delete_panel_config v p)) client (JObj args) log) =
          Content (''Panel '' @ ident @ '' deleted successfully'')"
    by (simp add: tool_handler_eq [OF tools_mem(15)] tool_fields config_fields
        documented_call_def delete_message_text)
next
  fix client :: client and args log ids r
  assume ids: "map_of args ''ids'' = Some (JArr ids)"
    and ok: "parse_args DeletePanelsSchema (JObj args) \<noteq> None"
    and r: "client log (Call ''deletePanels'' [Some (JArr ids)]) = Inr r"
  from ok obtain validated where
    validated: "parse_args DeletePanelsSchema (JObj args) = Some validated"
    by auto
  then have "validated = [(''ids'', JArr ids)]"
    unfolding DeletePanelsSchema_def by (rule parse_ids_object_plain) (rule ids)
  with validated r
  show "fst (tool_handler (createActionTool (delete_panels_config p)) client (JObj args) log) =
          Content (show_nat (length ids) @ '' panels deleted successfully'')"
    by (simp add: tool_handler_eq [OF tools_mem(16)] tool_fields config_fields
        documented_call_def delete_message_text)
qed

theorem delete_text_ignores_response_witness:
  "fst (tool_handler (createActionTool delete_dashboards_config)
     (\<lambda>log c. Inr (JObj [(''success'', JBool True)]))
     (JObj [(''ids'', JArr [JStr ''dash-1'', JStr ''dash-2''])]) []) =
     Content ''2 dashboards deleted successfully'' \<and>
   fst (tool_handler (createActionTool delete_dashboards_config) (\<lambda>log c. Inr JNull)
     (JObj [(''ids'', JArr [JStr ''dash-1'', JStr ''dash-2''])]) []) =
     Content ''2 dashboards deleted successfully'' \<and>
   fst (tool_handler (createActionTool (delete_dashboard_config sampleValidators))
     (\<lambda>log c. Inr JNull)
     (JObj [(''id'', JStr ''123e4567-e89b-12d3-a456-426614174000'')]) []) =
     Content ''Dashboard 123e4567-e89b-12d3-a456-426614174000 deleted successfully''"
proof -
  note all = delete_text_ignores_response [of sampleValidators samplePanelSource]
  note bulk = all [THEN conjunct2, THEN conjunct2, THEN conjunct1, rule_format,
      of "[(''ids'', JArr [JStr ''dash-1'', JStr ''dash-2''])]" "[JStr ''dash-1'', JStr ''dash-2'']"]
  note single = all [THEN conjunct2, THEN conjunct1, rule_format,
      of "[(''id'', JStr ''123e4567-e89b-12d3-a456-426614174000'')]"
        "''123e4567-e89b-12d3-a456-426614174000''" "\<lambda>log c. Inr JNull" "[]" JNull]
  have two: "show_nat (length [JStr ''dash-1'', JStr ''dash-2'']) = ''2''"
    by (simp add: show_nat.simps)
  have "fst (tool_handler (createActionTool delete_dashboards_config)
     (\<lambda>log c. Inr (JObj [(''success'', JBool True)]))
     (JObj [(''ids'', JArr [JStr ''dash-1'', JStr ''dash-2''])]) []) =
     Content ''2 dashboards deleted successfully''"
    using bulk [of "\<lambda>log c. Inr (JObj [(''success'', JBool True)])" "[]"
        "JObj [(''success'', JBool True)]"] two
    by (simp add: sample_delete_dashboards)
  moreover
  have "fst (tool_handler (createActionTool delete_dashboards_config) (\<lambda>log c. Inr JNull)
     (JObj [(''ids'', JArr [JStr ''dash-1'', JStr ''dash-2''])]) []) =
     Content ''2 dashboards deleted successfully''"
    using bulk [of "\<lambda>log c. Inr JNull" "[]" JNull] two
    by (simp add: sample_delete_dashboards)
  moreover
  have "fst (tool_handler (createActionTool (delete_dashboard_config sampleValidators))
     (\<lambda>log c. Inr JNull)
     (JObj [(''id'', JStr ''123e4567-e89b-12d3-a456-426614174000'')]) []) =
     Content ''Dashboard 123e4567-e89b-12d3-a456-426614174000 deleted successfully''"
    using single by (simp add: sample_delete_dashboard)
  ultimately show ?thesis by simp
qed

subsection \<open>The name of a dashboard to create\<close>

text \<open>
  Claim C10. The schema of \<open>create_dashboard\<close> accepts an object only when its \<open>name\<close>
  is a string of length at least 1. The fields \<open>icon\<close>, \<open>note\<close>, \<open>color\<close>,
  \<open>user_created\<close> and \<open>date_created\<close> may all be absent: an object with such a name and
  without them is accepted, and what is parsed is the name alone. So an object whose
  only field is the empty name is rejected, and one whose only field is the name \<open>x\<close>
  is accepted.
\<close>

theorem create_dashboard_requires_name:
  "inputSchema (create_dashboard_config v) = CreateDashboardSchema v \<and>
   (parse_val (CreateDashboardSchema v) (JObj args) \<noteq> None \<longrightarrow>
      (\<exists>s. map_of args ''name'' = Some (JStr s) \<and> 1 \<le> length s)) \<and>
   (\<forall>s. map_of args ''name'' = Some (JStr s) \<longrightarrow> 1 \<le> length s \<longrightarrow>
      map_of args ''icon'' = None \<longrightarrow> map_of args ''note'' = None \<longrightarrow>
      map_of args ''color'' = None \<longrightarrow> map_of args ''user_created'' = None \<longrightarrow>
      map_of args ''date_created'' = None \<longrightarrow>
        parse_val (CreateDashboardSchema v) (JObj args) = Some (JObj [(''name'', JStr s)])) \<and>
   parse_val (CreateDashboardSchema v) (JObj [(''name'', JStr [])]) = None \<and>
   parse_val (CreateDashboardSchema v) (JObj [(''name'', JStr ''x'')]) =
     Some (JObj [(''name'', JStr ''x'')])"
proof -
  have only: "parse_val (CreateDashboardSchema v) (JObj args) \<noteq> None \<longrightarrow>
      (\<exists>s. map_of args ''name'' = Some (JStr s) \<and> 1 \<le> length s)"
    unfolding CreateDashboardSchema_def
    by (cases "map_of args ''name''") (auto split: json.splits if_splits)
  have minimal: "\<forall>s. map_of args ''name'' = Some (JStr s) \<longrightarrow> 1 \<le> length s \<longrightarrow>
      map_of args ''icon'' = None \<longrightarrow> map_of args ''note'' = None \<longrightarrow>
      map_of args ''color'' = None \<longrightarrow> map_of args ''user_created'' = None \<longrightarrow>
      map_of args ''date_created'' = None \<longrightarrow>
        parse_val (CreateDashboardSchema v) (JObj args) = Some (JObj [(''name'', JStr s)])"
    by (simp add: CreateDashboardSchema_def)
  have examples:
    "parse_val (CreateDashboardSchema v) (JObj [(''name'', JStr [])]) = None"
    "parse_val (CreateDashboardSchema v) (JObj [(''name'', JStr ''x'')]) =
       Some (JObj [(''name'', JStr ''x'')])"
    by (simp_all add: CreateDashboardSchema_def)
  from only minimal examples show ?thesis
    by (simp add: config_fields)
qed

theorem create_dashboard_requires_name_witness:
  "parse_val (CreateDashboardSchema sampleValidators) (JObj [(''name'', JStr ''Minimal Dashboard'')]) =
     Some (JObj [(''name'', JStr ''Minimal Dashboard'')]) \<and>
   parse_val (CreateDashboardSchema sampleValidators) (JObj [(''name'', JStr [])]) = None \<and>
   parse_val (CreateDashboardSchema sampleValidators) (JObj [(''icon'', JStr ''analytics'')]) = None"
proof -
  note all =
    create_dashboard_requires_name [of sampleValidators "[(''name'', JStr ''Minimal Dashboard'')]"]
  note none =
    create_dashboard_requires_name [of sampleValidators "[(''icon'', JStr ''analytics'')]",
      THEN conjunct2, THEN conjunct1]
  have "parse_val (CreateDashboardSchema sampleValidators)
      (JObj [(''name'', JStr ''Minimal Dashboard'')]) =
      Some (JObj [(''name'', JStr ''Minimal Dashboard'')])"
    using all [THEN conjunct2, THEN conjunct2, THEN conjunct1, rule_format,
        of "''Minimal Dashboard''"]
    by simp
  moreover have "parse_val (CreateDashboardSchema sampleValidators)
      (JObj [(''icon'', JStr ''analytics'')]) = None"
    using none by auto
  ultimately show ?thesis
    using all by simp
qed

subsection \<open>The ids of a bulk delete\<close>





end
